theory Spec2Isabelle
  imports
    Main
    "HOL-Library.Sublist"
    "HOL-Library.Multiset"
    "HOL-Library.Char_ord"
    "HOL-Library.List_Lexorder"
    "HOL-Library.Product_Lexorder"
begin

section \<open>Taskify: the authentication gate and the owner-scoped task routes\<close>

text \<open>
  The development embeds two server files of the repository: the task router
  (\<^verbatim>\<open>routes/tasks.js\<close>: list, get, create, update, delete, status update) and the
  authentication middleware (\<^verbatim>\<open>middleware/authMiddleware.js\<close>). Each handler becomes
  a function from the authenticated user, the request data and the database to a response
  and the database afterwards. A \<^verbatim>\<open>try { ... } catch (error)\<close> block becomes a case
  distinction on a sum: the left injection carries the name of the thrown error and is fed
  to the handler's catch branch.

  The fields of a request body and of a query string are strings or absent
  (\<open>string option\<close>, \<open>None\<close> being \<^verbatim>\<open>undefined\<close>); a string is the list of
  the bytes of its UTF-8 encoding. Time stamps kept by the storage layer
  (\<^verbatim>\<open>createdAt\<close>, \<^verbatim>\<open>updatedAt\<close>) are not read or written by any handler and are not part
  of the model, and a failure of the connection to the database is not modelled.
\<close>

subsection \<open>Documents, requests and responses\<close>

type_synonym oid = string

record task =
  task_id :: oid
  userId :: oid
  title :: string
  description :: string
  dueDate :: int
  status :: string
  priority :: string

text \<open>
  Modelled from the spec: the user model (\<^verbatim>\<open>models/User.js\<close> is not among the
  sources). A user has a server-assigned identifier, a username, an email address and a
  password hash.
\<close>

record user =
  user_id :: oid
  username :: string
  email :: string
  password :: string

text \<open>
  The user as it is attached to a request and joined onto a task: the document without its
  password (\<^verbatim>\<open>.select('-password')\<close>, \<^verbatim>\<open>.populate('userId', 'username email')\<close>).
\<close>

record user_view =
  view_id :: oid
  view_username :: string
  view_email :: string

record populated =
  doc :: task
  owner :: "user_view option"

record db =
  tasks :: "task list"
  users :: "user list"

datatype js_error =
    CastError
  | ValidationError
  | MongoServerError
  | JsonWebTokenError
  | TokenExpiredError
  | NotBeforeError

datatype payload =
    NoPayload
  | TaskDoc task
  | TaskView populated
  | TaskViews "populated list" nat

datatype response = Response (statusCode: nat) (message: string) (payload: payload)

text \<open>The result of \<^verbatim>\<open>jwt.verify\<close>: the decoded \<^verbatim>\<open>userId\<close> (absent when the payload has none), or the error it throws.\<close>

datatype verified = Decoded "string option" | Throws js_error

text \<open>
  What the handlers take from their libraries and from the database server:
  the cast of a string to an object identifier (\<open>None\<close>: the cast fails and the query
  throws \<^verbatim>\<open>CastError\<close>), token verification under the server's secret, the time value of
  \<^verbatim>\<open>new Date(s)\<close> (\<open>None\<close>: \<^verbatim>\<open>NaN\<close>), and whether the database accepts a string as
  a sort path.
\<close>

record env =
  castObjectId :: "string \<Rightarrow> oid option"
  jwt_verify :: "string \<Rightarrow> verified"
  parseDate :: "string \<Rightarrow> int option"
  acceptsSortPath :: "string \<Rightarrow> bool"

record task_fields =
  in_title :: "string option"
  in_description :: "string option"
  in_dueDate :: "string option"
  in_status :: "string option"
  in_priority :: "string option"

record list_query =
  q_status :: "string option"
  q_sortBy :: "string option"
  q_order :: "string option"

subsection \<open>JavaScript strings\<close>

text \<open>A string is truthy unless it is \<^verbatim>\<open>undefined\<close> or empty.\<close>

definition truthy :: "string option \<Rightarrow> bool" where
  "truthy v = (case v of None \<Rightarrow> False | Some s \<Rightarrow> s \<noteq> [])"

text \<open>\<^verbatim>\<open>a || b\<close> on strings.\<close>

definition orElse :: "string option \<Rightarrow> string \<Rightarrow> string" where
  "orElse v d = (case v of None \<Rightarrow> d | Some s \<Rightarrow> if s = [] then d else s)"

text \<open>
  The code points that \<^verbatim>\<open>String.prototype.trim\<close> strips, in UTF-8: the white space of
  ECMAScript (U+0009, U+000B, U+000C, U+0020, U+00A0, U+FEFF and the space separators
  U+1680, U+2000 to U+200A, U+202F, U+205F, U+3000) and its line terminators (U+000A,
  U+000D, U+2028, U+2029).
\<close>

definition whiteSpace :: "string list" where
  "whiteSpace =
     [[CHR 0x09], [CHR 0x0A], [CHR 0x0B], [CHR 0x0C], [CHR 0x0D], [CHR 0x20],
      [CHR 0xC2, CHR 0xA0],
      [CHR 0xE1, CHR 0x9A, CHR 0x80],
      [CHR 0xE2, CHR 0x80, CHR 0x80], [CHR 0xE2, CHR 0x80, CHR 0x81],
      [CHR 0xE2, CHR 0x80, CHR 0x82], [CHR 0xE2, CHR 0x80, CHR 0x83],
      [CHR 0xE2, CHR 0x80, CHR 0x84], [CHR 0xE2, CHR 0x80, CHR 0x85],
      [CHR 0xE2, CHR 0x80, CHR 0x86], [CHR 0xE2, CHR 0x80, CHR 0x87],
      [CHR 0xE2, CHR 0x80, CHR 0x88], [CHR 0xE2, CHR 0x80, CHR 0x89],
      [CHR 0xE2, CHR 0x80, CHR 0x8A],
      [CHR 0xE2, CHR 0x80, CHR 0xA8], [CHR 0xE2, CHR 0x80, CHR 0xA9],
      [CHR 0xE2, CHR 0x80, CHR 0xAF],
      [CHR 0xE2, CHR 0x81, CHR 0x9F],
      [CHR 0xE3, CHR 0x80, CHR 0x80],
      [CHR 0xEF, CHR 0xBB, CHR 0xBF]]"

text \<open>Stripping at the start: as long as the text starts with one of these code points, drop it.\<close>

function trimStart :: "string \<Rightarrow> string" where
  "trimStart s =
     (case find (\<lambda>w. prefix w s) whiteSpace of
        None \<Rightarrow> s
      | Some w \<Rightarrow> trimStart (drop (length w) s))"
  by pat_completeness auto
termination
proof (relation "measure length")
  show "wf (measure length)" by simp
next
  fix s w
  assume "find (\<lambda>w. prefix w s) whiteSpace = Some w"
  then have "w \<in> set whiteSpace" and "prefix w s"
    by (auto simp: find_Some_iff)
  then have "w \<noteq> []" and "length w \<le> length s"
    by (auto simp: whiteSpace_def prefix_length_le)
  then show "(drop (length w) s, s) \<in> measure length"
    by (cases w) auto
qed

text \<open>
  Stripping at the end. In well-formed UTF-8 a text that ends with the bytes of a code
  point ends with that code point.
\<close>

function trimEnd :: "string \<Rightarrow> string" where
  "trimEnd s =
     (case find (\<lambda>w. suffix w s) whiteSpace of
        None \<Rightarrow> s
      | Some w \<Rightarrow> trimEnd (take (length s - length w) s))"
  by pat_completeness auto
termination
proof (relation "measure length")
  show "wf (measure length)" by simp
next
  fix s w
  assume "find (\<lambda>w. suffix w s) whiteSpace = Some w"
  then have "w \<in> set whiteSpace" and "suffix w s"
    by (auto simp: find_Some_iff)
  then have "w \<noteq> []" and "length w \<le> length s"
    by (auto simp: whiteSpace_def suffix_length_le)
  then show "(take (length s - length w) s, s) \<in> measure length"
    by (cases w) auto
qed

declare trimStart.simps [simp del] trimEnd.simps [simp del]

definition trim :: "string \<Rightarrow> string" where
  "trim s = trimEnd (trimStart s)"

text \<open>
  The \<^verbatim>\<open>length\<close> of a string counts UTF-16 code units. On UTF-8 bytes: a continuation
  byte counts nothing, the first byte of a four-byte sequence (a code point beyond the
  basic plane, a surrogate pair in UTF-16) counts two, every other byte one.
\<close>

definition codeUnits :: "char \<Rightarrow> nat" where
  "codeUnits c =
     (let b = (of_char c :: nat)
      in if 128 \<le> b \<and> b < 192 then 0 else if 240 \<le> b then 2 else 1)"

definition jsLength :: "string \<Rightarrow> nat" where
  "jsLength s = sum_list (map codeUnits s)"

definition populate :: "user list \<Rightarrow> task \<Rightarrow> populated" where
  "populate us t =
     \<lparr>doc = t,
      owner = map_option
        (\<lambda>u. \<lparr>view_id = user_id u, view_username = username u, view_email = email u\<rparr>)
        (find (\<lambda>u. user_id u = userId t) us)\<rparr>"

subsection \<open>The authentication gate\<close>

text \<open>\<^verbatim>\<open>User.findById(id).select('-password')\<close>; an absent identifier matches no user.\<close>

definition user_findById :: "env \<Rightarrow> string option \<Rightarrow> user list \<Rightarrow> js_error + user_view option" where
  "user_findById env ident us =
     (case ident of
        None \<Rightarrow> Inr None
      | Some s \<Rightarrow>
          (case castObjectId env s of
             None \<Rightarrow> Inl CastError
           | Some i \<Rightarrow>
               Inr (map_option
                 (\<lambda>u. \<lparr>view_id = user_id u, view_username = username u, view_email = email u\<rparr>)
                 (find (\<lambda>u. user_id u = i) us))))"

text \<open>The catch branch of the middleware.\<close>

definition auth_catch :: "js_error \<Rightarrow> response" where
  "auth_catch e =
     (if e = JsonWebTokenError then Response 401 ''Token is not valid'' NoPayload
      else if e = TokenExpiredError then Response 401 ''Token has expired'' NoPayload
      else Response 500 ''Server error in authentication'' NoPayload)"

text \<open>
  The middleware answers itself (\<open>Inl\<close>) or attaches the user and calls \<^verbatim>\<open>next()\<close>
  (\<open>Inr\<close>).
\<close>

definition authMiddleware :: "env \<Rightarrow> db \<Rightarrow> string option \<Rightarrow> response + user_view" where
  "authMiddleware env d authHeader =
     (if \<not> truthy authHeader then
        Inl (Response 401 ''No token provided, authorization denied'' NoPayload)
      else if \<not> prefix ''Bearer '' (the authHeader) then
        Inl (Response 401 ''Invalid token format'' NoPayload)
      else
        (let token = drop 7 (the authHeader) in
         if token = [] then
           Inl (Response 401 ''No token provided, authorization denied'' NoPayload)
         else
           (case jwt_verify env token of
              Throws e \<Rightarrow> Inl (auth_catch e)
            | Decoded ident \<Rightarrow>
                (case user_findById env ident (users d) of
                   Inl e \<Rightarrow> Inl (auth_catch e)
                 | Inr None \<Rightarrow> Inl (Response 401 ''Token is not valid'' NoPayload)
                 | Inr (Some u) \<Rightarrow> Inr u))))"

subsection \<open>The task collection\<close>

text \<open>
  Modelled from the spec: the schema of the task model (\<^verbatim>\<open>models/Task.js\<close> is not
  among the sources). The spec's data model gives the constraints a stored task meets:
  a non-empty title of at most 200 characters, a description of at most 1000 characters
  (characters as the \<^verbatim>\<open>length\<close> of a JavaScript string counts them),
  a status among pending, in-progress and completed, a priority among low, medium and
  high. Saving a document that breaks one of them throws \<^verbatim>\<open>ValidationError\<close>.
\<close>

definition statusEnum :: "string list" where
  "statusEnum = [''pending'', ''in-progress'', ''completed'']"

definition priorityEnum :: "string list" where
  "priorityEnum = [''low'', ''medium'', ''high'']"

definition validateTask :: "task \<Rightarrow> bool" where
  "validateTask t =
     (title t \<noteq> [] \<and> jsLength (title t) \<le> 200 \<and> jsLength (description t) \<le> 1000 \<and>
      status t \<in> set statusEnum \<and> priority t \<in> set priorityEnum)"

text \<open>The filter \<^verbatim>\<open>{ _id: id, userId: req.user._id }\<close> of every single-task query.\<close>

definition owned :: "oid \<Rightarrow> oid \<Rightarrow> task \<Rightarrow> bool" where
  "owned i uid t = (task_id t = i \<and> userId t = uid)"

fun replaceFirst :: "(task \<Rightarrow> bool) \<Rightarrow> task \<Rightarrow> task list \<Rightarrow> task list" where
  "replaceFirst P t' [] = []"
| "replaceFirst P t' (t # ts) = (if P t then t' # ts else t # replaceFirst P t' ts)"

fun removeFirst :: "(task \<Rightarrow> bool) \<Rightarrow> task list \<Rightarrow> task list" where
  "removeFirst P [] = []"
| "removeFirst P (t # ts) = (if P t then ts else t # removeFirst P ts)"

text \<open>\<^verbatim>\<open>Task.findOne({ _id, userId })\<close>: the identifier is cast first.\<close>

definition task_findOne :: "env \<Rightarrow> string \<Rightarrow> oid \<Rightarrow> task list \<Rightarrow> js_error + task option" where
  "task_findOne env pid uid ts =
     (case castObjectId env pid of
        None \<Rightarrow> Inl CastError
      | Some i \<Rightarrow> Inr (find (owned i uid) ts))"

text \<open>
  \<^verbatim>\<open>task.save()\<close> on a new document: validation, then the insert, which the unique
  index on the identifier refuses for an identifier already stored.
\<close>

definition task_insert :: "task \<Rightarrow> task list \<Rightarrow> js_error + task list" where
  "task_insert t ts =
     (if \<not> validateTask t then Inl ValidationError
      else if task_id t \<in> set (map task_id ts) then Inl MongoServerError
      else Inr (ts @ [t]))"

text \<open>\<^verbatim>\<open>task.save()\<close> on a loaded document: validation, then the update of the document with its identifier.\<close>

definition task_save :: "task \<Rightarrow> task list \<Rightarrow> js_error + task list" where
  "task_save t ts =
     (if \<not> validateTask t then Inl ValidationError
      else Inr (replaceFirst (\<lambda>x. task_id x = task_id t) t ts))"

text \<open>\<^verbatim>\<open>Task.findOneAndDelete({ _id, userId })\<close>: the removed document, and the collection afterwards.\<close>

definition task_findOneAndDelete ::
  "env \<Rightarrow> string \<Rightarrow> oid \<Rightarrow> task list \<Rightarrow> js_error + (task option \<times> task list)" where
  "task_findOneAndDelete env pid uid ts =
     (case castObjectId env pid of
        None \<Rightarrow> Inl CastError
      | Some i \<Rightarrow> Inr (find (owned i uid) ts, removeFirst (owned i uid) ts))"

text \<open>
  \<^verbatim>\<open>Task.findOneAndUpdate({ _id, userId }, { status }, { new: true, runValidators: true })\<close>:
  the filter is cast, the new status is validated against the schema, and the first
  matching document is updated and returned as updated.
\<close>

definition task_findOneAndUpdate ::
  "env \<Rightarrow> string \<Rightarrow> oid \<Rightarrow> string \<Rightarrow> task list \<Rightarrow> js_error + (task option \<times> task list)" where
  "task_findOneAndUpdate env pid uid s ts =
     (case castObjectId env pid of
        None \<Rightarrow> Inl CastError
      | Some i \<Rightarrow>
          if s \<notin> set statusEnum then Inl ValidationError
          else
            (case find (owned i uid) ts of
               None \<Rightarrow> Inr (None, ts)
             | Some t \<Rightarrow>
                 Inr (Some (t\<lparr>status := s\<rparr>), replaceFirst (owned i uid) (t\<lparr>status := s\<rparr>) ts)))"

text \<open>
  Sorting is the database's: values compare by type first (null, string, object
  identifier, date), then by value, strings and identifiers bytewise. A path the model
  does not carry reads as missing, that is null. The database leaves the order of
  documents with equal keys open; the model keeps the stored order among them when
  ascending and reverses it when descending.
\<close>

datatype bson = BNull | BString string | BObjectId oid | BDate int

definition path_value :: "string \<Rightarrow> task \<Rightarrow> bson" where
  "path_value p t =
     (if p = ''_id'' then BObjectId (task_id t)
      else if p = ''userId'' then BObjectId (userId t)
      else if p = ''title'' then BString (title t)
      else if p = ''description'' then BString (description t)
      else if p = ''dueDate'' then BDate (dueDate t)
      else if p = ''status'' then BString (status t)
      else if p = ''priority'' then BString (priority t)
      else BNull)"

fun bson_key :: "bson \<Rightarrow> nat \<times> string \<times> int" where
  "bson_key BNull = (0, [], 0)"
| "bson_key (BString s) = (1, s, 0)"
| "bson_key (BObjectId i) = (2, i, 0)"
| "bson_key (BDate ms) = (3, [], ms)"

definition sortKey :: "string \<Rightarrow> task \<Rightarrow> nat \<times> string \<times> int" where
  "sortKey p t = bson_key (path_value p t)"

definition sortDocs :: "string \<Rightarrow> bool \<Rightarrow> task list \<Rightarrow> task list" where
  "sortDocs p descending ts =
     (if descending then rev (sort_key (sortKey p) ts) else sort_key (sortKey p) ts)"

text \<open>The query object of the list route: the owner, and the status when one was given.\<close>

definition matches :: "oid \<Rightarrow> string option \<Rightarrow> task \<Rightarrow> bool" where
  "matches uid st t = (userId t = uid \<and> (case st of None \<Rightarrow> True | Some s \<Rightarrow> status t = s))"

text \<open>\<^verbatim>\<open>Task.find(query).sort(sortObject)\<close>.\<close>

definition task_find ::
  "env \<Rightarrow> oid \<Rightarrow> string option \<Rightarrow> string \<Rightarrow> bool \<Rightarrow> task list \<Rightarrow> js_error + task list" where
  "task_find env uid st p descending ts =
     (if \<not> acceptsSortPath env p then Inl MongoServerError
      else Inr (sortDocs p descending (filter (matches uid st) ts)))"

subsection \<open>The task routes\<close>

text \<open>The catch branch shared by the routes that take an identifier: \<^verbatim>\<open>CastError\<close> is the client's error, anything else the server's.\<close>

definition task_catch :: "string \<Rightarrow> js_error \<Rightarrow> response" where
  "task_catch serverMessage e =
     (if e = CastError then Response 400 ''Invalid task ID'' NoPayload
      else Response 500 serverMessage NoPayload)"

text \<open>\<^verbatim>\<open>GET /tasks\<close>\<close>

definition getTasks :: "env \<Rightarrow> user_view \<Rightarrow> list_query \<Rightarrow> db \<Rightarrow> response \<times> db" where
  "getTasks env u q d =
     (let sortBy = (case q_sortBy q of None \<Rightarrow> ''dueDate'' | Some f \<Rightarrow> f);
          ord = (case q_order q of None \<Rightarrow> ''asc'' | Some x \<Rightarrow> x);
          st = (if truthy (q_status q) then q_status q else None)
      in case task_find env (view_id u) st sortBy (ord = ''desc'') (tasks d) of
           Inl e \<Rightarrow> (Response 500 ''Server error while fetching tasks'' NoPayload, d)
         | Inr ts \<Rightarrow>
             (Response 200 ''Tasks retrieved successfully''
                (TaskViews (map (populate (users d)) ts) (length ts)), d))"

text \<open>\<^verbatim>\<open>GET /tasks/:id\<close>\<close>

definition getTask :: "env \<Rightarrow> user_view \<Rightarrow> string \<Rightarrow> db \<Rightarrow> response \<times> db" where
  "getTask env u pid d =
     (case task_findOne env pid (view_id u) (tasks d) of
        Inl e \<Rightarrow> (task_catch ''Server error while fetching task'' e, d)
      | Inr None \<Rightarrow> (Response 404 ''Task not found'' NoPayload, d)
      | Inr (Some t) \<Rightarrow>
          (Response 200 ''Task retrieved successfully'' (TaskView (populate (users d) t)), d))"

text \<open>\<^verbatim>\<open>POST /tasks\<close>; \<open>newId\<close> is the identifier the driver generates for the new document.\<close>

definition createTask :: "env \<Rightarrow> oid \<Rightarrow> user_view \<Rightarrow> task_fields \<Rightarrow> db \<Rightarrow> response \<times> db" where
  "createTask env newId u b d =
     (if \<not> truthy (in_title b) \<or> \<not> truthy (in_dueDate b) then
        (Response 400 ''Title and due date are required'' NoPayload, d)
      else
        (case parseDate env (the (in_dueDate b)) of
           None \<Rightarrow> (Response 400 ''Invalid due date format'' NoPayload, d)
         | Some dueDateObj \<Rightarrow>
             (let t = \<lparr>task_id = newId,
                       userId = view_id u,
                       title = trim (the (in_title b)),
                       description =
                         (if truthy (in_description b) then trim (the (in_description b)) else []),
                       dueDate = dueDateObj,
                       status = orElse (in_status b) ''pending'',
                       priority = orElse (in_priority b) ''medium''\<rparr>
              in case task_insert t (tasks d) of
                   Inl e \<Rightarrow> (Response 500 ''Server error while creating task'' NoPayload, d)
                 | Inr ts \<Rightarrow>
                     (Response 201 ''Task created successfully''
                        (TaskView (populate (users d) t)), d\<lparr>tasks := ts\<rparr>))))"

text \<open>The assignments of the update route after the due date: title, description, status, priority.\<close>

definition assignFields :: "task_fields \<Rightarrow> task \<Rightarrow> task" where
  "assignFields b t =
     (let t1 = (if truthy (in_title b) then t\<lparr>title := trim (the (in_title b))\<rparr> else t);
          t2 = (if in_description b \<noteq> None
                then t1\<lparr>description := trim (the (in_description b))\<rparr> else t1);
          t3 = (if truthy (in_status b) then t2\<lparr>status := the (in_status b)\<rparr> else t2)
      in if truthy (in_priority b) then t3\<lparr>priority := the (in_priority b)\<rparr> else t3)"

text \<open>\<^verbatim>\<open>PUT /tasks/:id\<close>\<close>

definition updateTask :: "env \<Rightarrow> user_view \<Rightarrow> string \<Rightarrow> task_fields \<Rightarrow> db \<Rightarrow> response \<times> db" where
  "updateTask env u pid b d =
     (case task_findOne env pid (view_id u) (tasks d) of
        Inl e \<Rightarrow> (task_catch ''Server error while updating task'' e, d)
      | Inr None \<Rightarrow> (Response 404 ''Task not found'' NoPayload, d)
      | Inr (Some t) \<Rightarrow>
          (if truthy (in_dueDate b) \<and> parseDate env (the (in_dueDate b)) = None then
             (Response 400 ''Invalid due date format'' NoPayload, d)
           else
             (let t0 = (if truthy (in_dueDate b)
                        then t\<lparr>dueDate := the (parseDate env (the (in_dueDate b)))\<rparr> else t);
                  t' = assignFields b t0
              in case task_save t' (tasks d) of
                   Inl e \<Rightarrow> (task_catch ''Server error while updating task'' e, d)
                 | Inr ts \<Rightarrow>
                     (Response 200 ''Task updated successfully''
                        (TaskView (populate (users d) t')), d\<lparr>tasks := ts\<rparr>))))"

text \<open>\<^verbatim>\<open>DELETE /tasks/:id\<close>\<close>

definition deleteTask :: "env \<Rightarrow> user_view \<Rightarrow> string \<Rightarrow> db \<Rightarrow> response \<times> db" where
  "deleteTask env u pid d =
     (case task_findOneAndDelete env pid (view_id u) (tasks d) of
        Inl e \<Rightarrow> (task_catch ''Server error while deleting task'' e, d)
      | Inr (None, ts) \<Rightarrow> (Response 404 ''Task not found'' NoPayload, d)
      | Inr (Some t, ts) \<Rightarrow>
          (Response 200 ''Task deleted successfully'' (TaskDoc t), d\<lparr>tasks := ts\<rparr>))"

text \<open>\<^verbatim>\<open>PATCH /tasks/:id/status\<close>\<close>

definition updateTaskStatus ::
  "env \<Rightarrow> user_view \<Rightarrow> string \<Rightarrow> string option \<Rightarrow> db \<Rightarrow> response \<times> db" where
  "updateTaskStatus env u pid st d =
     (if \<not> truthy st then (Response 400 ''Status is required'' NoPayload, d)
      else
        (case task_findOneAndUpdate env pid (view_id u) (the st) (tasks d) of
           Inl e \<Rightarrow> (task_catch ''Server error while updating task status'' e, d)
         | Inr (None, ts) \<Rightarrow> (Response 404 ''Task not found'' NoPayload, d)
         | Inr (Some t, ts) \<Rightarrow>
             (Response 200 ''Task status updated successfully''
                (TaskView (populate (users d) t)), d\<lparr>tasks := ts\<rparr>)))"

text \<open>
  The router: \<^verbatim>\<open>router.use(authMiddleware)\<close> runs the gate before every route; a
  route runs only when the gate called \<^verbatim>\<open>next()\<close>.
\<close>

datatype request =
    GetTasks list_query
  | GetTask string
  | PostTask task_fields
  | PutTask string task_fields
  | DeleteTask string
  | PatchTaskStatus string "string option"

definition route :: "env \<Rightarrow> oid \<Rightarrow> user_view \<Rightarrow> request \<Rightarrow> db \<Rightarrow> response \<times> db" where
  "route env newId u req d =
     (case req of
        GetTasks q \<Rightarrow> getTasks env u q d
      | GetTask pid \<Rightarrow> getTask env u pid d
      | PostTask b \<Rightarrow> createTask env newId u b d
      | PutTask pid b \<Rightarrow> updateTask env u pid b d
      | DeleteTask pid \<Rightarrow> deleteTask env u pid d
      | PatchTaskStatus pid st \<Rightarrow> updateTaskStatus env u pid st d)"

definition router :: "env \<Rightarrow> oid \<Rightarrow> string option \<Rightarrow> request \<Rightarrow> db \<Rightarrow> response \<times> db" where
  "router env newId authHeader req d =
     (case authMiddleware env d authHeader of
        Inl r \<Rightarrow> (r, d)
      | Inr u \<Rightarrow> route env newId u req d)"

subsection \<open>Reading a response\<close>

text \<open>The task documents a response carries.\<close>

fun payload_tasks :: "payload \<Rightarrow> task list" where
  "payload_tasks NoPayload = []"
| "payload_tasks (TaskDoc t) = [t]"
| "payload_tasks (TaskView p) = [doc p]"
| "payload_tasks (TaskViews ps n) = map doc ps"

subsection \<open>A sample deployment\<close>

text \<open>
  A concrete environment and database on which the theorems below are instantiated: two
  users, two tasks of the first and one of the second, identifiers of 24 hexadecimal
  digits, a verifier that knows three tokens, and a date parser that knows one instant.
\<close>

definition isHexDigit :: "char \<Rightarrow> bool" where
  "isHexDigit c = (c \<in> set ''0123456789abcdef'')"

definition alice_id :: oid where "alice_id = ''64b7f0c2a1d3e4f5a6b7c8d1''"
definition bob_id :: oid where "bob_id = ''64b7f0c2a1d3e4f5a6b7c8d2''"
definition ghost_id :: oid where "ghost_id = ''64b7f0c2a1d3e4f5a6b7c8d9''"
definition report_id :: oid where "report_id = ''64b7f0c2a1d3e4f5a6b7c8e1''"
definition groceries_id :: oid where "groceries_id = ''64b7f0c2a1d3e4f5a6b7c8e2''"
definition slides_id :: oid where "slides_id = ''64b7f0c2a1d3e4f5a6b7c8e4''"
definition unused_id :: oid where "unused_id = ''64b7f0c2a1d3e4f5a6b7c8e3''"

definition demo_env :: env where
  "demo_env =
     \<lparr>castObjectId = (\<lambda>s. if length s = 24 \<and> list_all isHexDigit s then Some s else None),
      jwt_verify = (\<lambda>tok.
        if tok = ''alice.token'' then Decoded (Some alice_id)
        else if tok = ''ghost.token'' then Decoded (Some ghost_id)
        else if tok = ''old.token'' then Throws TokenExpiredError
        else Throws JsonWebTokenError),
      parseDate = (\<lambda>s. if s = ''2030-01-01T00:00:00Z'' then Some 1893456000000 else None),
      acceptsSortPath = (\<lambda>p. case p of [] \<Rightarrow> False | c # cs \<Rightarrow> c \<noteq> CHR ''$'')\<rparr>"

definition alice :: user where
  "alice = \<lparr>user_id = alice_id, username = ''alice'', email = ''alice@x.com'', password = ''$2a$10$hash''\<rparr>"

definition bob :: user where
  "bob = \<lparr>user_id = bob_id, username = ''bob'', email = ''bob@x.com'', password = ''$2a$10$hsah''\<rparr>"

definition alice_view :: user_view where
  "alice_view = \<lparr>view_id = alice_id, view_username = ''alice'', view_email = ''alice@x.com''\<rparr>"

definition bob_view :: user_view where
  "bob_view = \<lparr>view_id = bob_id, view_username = ''bob'', view_email = ''bob@x.com''\<rparr>"

definition report :: task where
  "report =
     \<lparr>task_id = report_id, userId = alice_id, title = ''Write report'',
      description = ''Quarterly numbers'', dueDate = 1893456000000,
      status = ''pending'', priority = ''medium''\<rparr>"

definition groceries :: task where
  "groceries =
     \<lparr>task_id = groceries_id, userId = bob_id, title = ''Buy groceries'',
      description = [], dueDate = 1700000000000,
      status = ''in-progress'', priority = ''low''\<rparr>"

definition slides :: task where
  "slides =
     \<lparr>task_id = slides_id, userId = alice_id, title = ''Prepare slides'',
      description = ''For the review'', dueDate = 1800000000000,
      status = ''completed'', priority = ''high''\<rparr>"

definition demo_db :: db where
  "demo_db = \<lparr>tasks = [report, groceries, slides], users = [alice, bob]\<rparr>"

definition no_fields :: task_fields where
  "no_fields =
     \<lparr>in_title = None, in_description = None, in_dueDate = None,
      in_status = None, in_priority = None\<rparr>"

section \<open>Properties\<close>

subsection \<open>Trimming and length\<close>

lemma trim_Nil: "trim [] = []"
  by (simp add: trim_def trimStart.simps trimEnd.simps whiteSpace_def)

lemma trimStart_stripped: "find (\<lambda>w. prefix w (trimStart s)) whiteSpace = None"
  by (induction s rule: trimStart.induct) (subst trimStart.simps, simp split: option.splits)

lemma trimEnd_stripped: "find (\<lambda>w. suffix w (trimEnd s)) whiteSpace = None"
  by (induction s rule: trimEnd.induct) (subst trimEnd.simps, simp split: option.splits)

lemma trimEnd_keeps_start:
  "find (\<lambda>w. prefix w s) whiteSpace = None \<Longrightarrow> find (\<lambda>w. prefix w (trimEnd s)) whiteSpace = None"
proof (induction s rule: trimEnd.induct)
  case (1 s)
  show ?case
  proof (cases "find (\<lambda>w. suffix w s) whiteSpace")
    case None
    with "1.prems" show ?thesis by (subst trimEnd.simps) simp
  next
    case (Some w)
    have "prefix v s" if "prefix v (take (length s - length w) s)" for v
      using that by (metis append_take_drop_id prefix_prefix)
    with "1.prems" have "find (\<lambda>v. prefix v (take (length s - length w) s)) whiteSpace = None"
      by (auto simp: find_None_iff)
    with "1.IH" [OF Some] Some show ?thesis by (subst trimEnd.simps) simp
  qed
qed

text \<open>A trimmed text neither starts nor ends with a code point that is stripped.\<close>

lemma trim_stripped:
  "find (\<lambda>w. prefix w (trim s)) whiteSpace = None"
  "find (\<lambda>w. suffix w (trim s)) whiteSpace = None"
  by (simp_all add: trim_def trimEnd_stripped trimEnd_keeps_start trimStart_stripped)

text \<open>
  Examples: a no-break space (U+00A0) and a line separator (U+2028) are stripped; an
  accented letter is one character, a code point beyond the basic plane two.
\<close>

lemma trim_examples:
  "trim ''  Final report '' = ''Final report''"
  "trim [CHR 0xC2, CHR 0xA0] = []"
  "trim ([CHR 0xC2, CHR 0xA0] @ ''Hi'' @ [CHR 0xE2, CHR 0x80, CHR 0xA8, CHR 0x09]) = ''Hi''"
  by code_simp+

lemma jsLength_examples:
  "jsLength ''Write report'' = 12"
  "jsLength [CHR 0xC3, CHR 0xA9] = 1"
  "jsLength [CHR 0xF0, CHR 0x9F, CHR 0x98, CHR 0x80] = 2"
  by code_simp+

subsection \<open>The collection operations\<close>

lemma find_owned_SomeD:
  "find (owned i uid) ts = Some t \<Longrightarrow> t \<in> set ts \<and> task_id t = i \<and> userId t = uid"
  by (induction ts) (auto simp: owned_def split: if_splits)

lemma find_owned_distinct:
  "distinct (map task_id ts) \<Longrightarrow> t \<in> set ts \<Longrightarrow> find (owned (task_id t) (userId t)) ts = Some t"
  by (induction ts) (auto simp: owned_def)

lemma find_owned_fresh:
  "i \<notin> task_id ` set ts \<Longrightarrow> find (owned i uid) ts = None"
  by (induction ts) (auto simp: owned_def)

lemma find_owned_foreign:
  "distinct (map task_id ts) \<Longrightarrow> t \<in> set ts \<Longrightarrow> userId t \<noteq> uid \<Longrightarrow>
   find (owned (task_id t) uid) ts = None"
  by (induction ts) (auto simp: owned_def find_owned_fresh)

lemma replaceFirst_cong:
  "(\<And>x. x \<in> set ts \<Longrightarrow> P x = Q x) \<Longrightarrow> replaceFirst P t' ts = replaceFirst Q t' ts"
  by (induction ts) auto

lemma replaceFirst_id_map:
  "distinct (map task_id ts) \<Longrightarrow>
   replaceFirst (\<lambda>x. task_id x = i) t' ts = map (\<lambda>x. if task_id x = i then t' else x) ts"
proof (induction ts)
  case Nil
  then show ?case by simp
next
  case (Cons x xs)
  show ?case
  proof (cases "task_id x = i")
    case True
    with Cons.prems have "i \<notin> task_id ` set xs" by simp
    then have "\<forall>y \<in> set xs. task_id y \<noteq> i" by blast
    then have "map (\<lambda>x. if task_id x = i then t' else x) xs = xs"
      by (induction xs) auto
    with True show ?thesis by simp
  next
    case False
    with Cons show ?thesis by simp
  qed
qed

lemma replaceFirst_owned_map:
  assumes "distinct (map task_id ts)" and "find (owned i uid) ts = Some t"
  shows "replaceFirst (owned i uid) t' ts = map (\<lambda>x. if task_id x = i then t' else x) ts"
proof -
  from assms(2) have t: "t \<in> set ts" "task_id t = i" "userId t = uid"
    using find_owned_SomeD by blast+
  have "\<And>x. x \<in> set ts \<Longrightarrow> owned i uid x = (task_id x = i)"
  proof -
    fix x assume x: "x \<in> set ts"
    show "owned i uid x = (task_id x = i)"
    proof (cases "task_id x = i")
      case True
      with assms(1) x t have "x = t"
        by (metis distinct_map inj_onD)
      with t show ?thesis by (simp add: owned_def)
    next
      case False
      then show ?thesis by (simp add: owned_def)
    qed
  qed
  then have "replaceFirst (owned i uid) t' ts = replaceFirst (\<lambda>x. task_id x = i) t' ts"
    by (rule replaceFirst_cong)
  with assms(1) show ?thesis by (simp add: replaceFirst_id_map)
qed

lemma filter_replaceFirst:
  "(\<And>x. P x \<Longrightarrow> \<not> Q x) \<Longrightarrow> \<not> Q t' \<Longrightarrow> filter Q (replaceFirst P t' ts) = filter Q ts"
  by (induction ts) auto

lemma filter_removeFirst:
  "(\<And>x. P x \<Longrightarrow> \<not> Q x) \<Longrightarrow> filter Q (removeFirst P ts) = filter Q ts"
  by (induction ts) auto

lemma filter_replace_by_id:
  assumes "distinct (map task_id ts)" and "t \<in> set ts" and "\<not> Q t" and "\<not> Q t'"
  shows "filter Q (replaceFirst (\<lambda>x. task_id x = task_id t) t' ts) = filter Q ts"
  using assms
proof (induction ts)
  case Nil
  then show ?case by simp
next
  case (Cons x xs)
  show ?case
  proof (cases "task_id x = task_id t")
    case True
    with Cons.prems have "x = t" by (auto simp: image_iff)
    with Cons.prems True show ?thesis by simp
  next
    case False
    with Cons show ?thesis by auto
  qed
qed

lemma ids_replaceFirst:
  "(\<And>x. P x \<Longrightarrow> task_id x = task_id t') \<Longrightarrow>
   map task_id (replaceFirst P t' ts) = map task_id ts"
  by (induction ts) auto

lemma set_removeFirst: "set (removeFirst P ts) \<subseteq> set ts"
  by (induction ts) auto

lemma ids_removeFirst:
  "distinct (map task_id ts) \<Longrightarrow> distinct (map task_id (removeFirst P ts))"
proof (induction ts)
  case Nil
  then show ?case by simp
next
  case (Cons x xs)
  have "task_id ` set (removeFirst P xs) \<subseteq> task_id ` set xs"
    using set_removeFirst by blast
  with Cons show ?case by auto
qed

subsection \<open>The sample deployment\<close>

lemma demo_cast_ids:
  "castObjectId demo_env alice_id = Some alice_id"
  "castObjectId demo_env ghost_id = Some ghost_id"
  "castObjectId demo_env report_id = Some report_id"
  "castObjectId demo_env groceries_id = Some groceries_id"
  by (simp_all add: demo_env_def alice_id_def ghost_id_def report_id_def groceries_id_def isHexDigit_def)

lemma demo_cast_malformed: "castObjectId demo_env ''not-an-id'' = None"
  by (simp add: demo_env_def)

lemma demo_tokens:
  "jwt_verify demo_env ''forged.token'' = Throws JsonWebTokenError"
  "jwt_verify demo_env ''old.token'' = Throws TokenExpiredError"
  "jwt_verify demo_env ''ghost.token'' = Decoded (Some ghost_id)"
  "jwt_verify demo_env ''alice.token'' = Decoded (Some alice_id)"
  by (simp_all add: demo_env_def)

lemma demo_users:
  "ghost_id \<notin> user_id ` set (users demo_db)"
  "find (\<lambda>x. user_id x = alice_id) (users demo_db) = Some alice"
  by (simp_all add: demo_db_def alice_def bob_def alice_id_def bob_id_def ghost_id_def)

subsection \<open>The authentication gate\<close>

lemma auth_absent:
  "authMiddleware env d None = Inl (Response 401 ''No token provided, authorization denied'' NoPayload)"
  by (simp add: authMiddleware_def truthy_def)

lemma auth_not_bearer:
  "\<not> prefix ''Bearer '' h \<Longrightarrow>
   authMiddleware env d (Some h) =
     Inl (Response 401
       (if h = [] then ''No token provided, authorization denied'' else ''Invalid token format'')
       NoPayload)"
  by (simp add: authMiddleware_def truthy_def)

lemma auth_bearer:
  "tok \<noteq> [] \<Longrightarrow>
   authMiddleware env d (Some (''Bearer '' @ tok)) =
     (case jwt_verify env tok of
        Throws e \<Rightarrow> Inl (auth_catch e)
      | Decoded ident \<Rightarrow>
          (case user_findById env ident (users d) of
             Inl e \<Rightarrow> Inl (auth_catch e)
           | Inr None \<Rightarrow> Inl (Response 401 ''Token is not valid'' NoPayload)
           | Inr (Some u) \<Rightarrow> Inr u))"
  by (simp add: authMiddleware_def truthy_def)

lemma auth_next_iff:
  "authMiddleware env d hdr = Inr u \<longleftrightarrow>
   (\<exists>tok s i usr. hdr = Some (''Bearer '' @ tok) \<and> tok \<noteq> [] \<and>
      jwt_verify env tok = Decoded (Some s) \<and> castObjectId env s = Some i \<and>
      find (\<lambda>x. user_id x = i) (users d) = Some usr \<and>
      u = \<lparr>view_id = user_id usr, view_username = username usr, view_email = email usr\<rparr>)"
  (is "?L = ?R")
proof
  assume L: ?L
  then have t: "truthy hdr" and p: "prefix ''Bearer '' (the hdr)" and n: "drop 7 (the hdr) \<noteq> []"
    by (auto simp: authMiddleware_def Let_def split: if_splits)
  from t obtain h where h: "hdr = Some h" by (cases hdr) (auto simp: truthy_def)
  with p obtain tok where tok: "h = ''Bearer '' @ tok" by (auto simp: prefix_def)
  with n h have ne: "tok \<noteq> []" by simp
  from L auth_bearer [OF ne, of env d] have
    "(case jwt_verify env tok of
        Throws e \<Rightarrow> Inl (auth_catch e)
      | Decoded ident \<Rightarrow>
          (case user_findById env ident (users d) of
             Inl e \<Rightarrow> Inl (auth_catch e)
           | Inr None \<Rightarrow> Inl (Response 401 ''Token is not valid'' NoPayload)
           | Inr (Some u) \<Rightarrow> Inr u)) = Inr u"
    unfolding h tok by simp
  then have "\<exists>s i usr. jwt_verify env tok = Decoded (Some s) \<and> castObjectId env s = Some i \<and>
      find (\<lambda>x. user_id x = i) (users d) = Some usr \<and>
      u = \<lparr>view_id = user_id usr, view_username = username usr, view_email = email usr\<rparr>"
    by (auto simp: user_findById_def split: verified.splits sum.splits option.splits)
  with h tok ne show ?R by blast
next
  assume ?R
  then obtain tok s i usr where r: "hdr = Some (''Bearer '' @ tok)" "tok \<noteq> []"
      "jwt_verify env tok = Decoded (Some s)" "castObjectId env s = Some i"
      "find (\<lambda>x. user_id x = i) (users d) = Some usr"
      "u = \<lparr>view_id = user_id usr, view_username = username usr, view_email = email usr\<rparr>"
    by blast
  show ?L
    unfolding r(1) auth_bearer [OF r(2)] by (simp add: r user_findById_def)
qed


lemma auth_verify_throws:
  "tok \<noteq> [] \<Longrightarrow> jwt_verify env tok = Throws e \<Longrightarrow>
   authMiddleware env d (Some (''Bearer '' @ tok)) = Inl (auth_catch e)"
proof -
  assume a: "tok \<noteq> []" "jwt_verify env tok = Throws e"
  show ?thesis unfolding auth_bearer [OF a(1)] by (simp add: a(2))
qed

lemma auth_no_user:
  "tok \<noteq> [] \<Longrightarrow> jwt_verify env tok = Decoded (Some s) \<Longrightarrow> castObjectId env s = Some i \<Longrightarrow>
   i \<notin> user_id ` set (users d) \<Longrightarrow>
   authMiddleware env d (Some (''Bearer '' @ tok)) = Inl (Response 401 ''Token is not valid'' NoPayload)"
proof -
  assume a: "tok \<noteq> []" "jwt_verify env tok = Decoded (Some s)" "castObjectId env s = Some i"
    "i \<notin> user_id ` set (users d)"
  from a(4) have "find (\<lambda>x. user_id x = i) (users d) = None"
    by (auto simp: find_None_iff)
  with a(2,3) show ?thesis
    unfolding auth_bearer [OF a(1)] by (simp add: user_findById_def)
qed

text \<open>
  Claim C2. The gate answers 401 when the Authorization header is absent, when it does not
  start with \<^verbatim>\<open>Bearer \<close>, when verification throws for an invalid signature (reason
  \<^verbatim>\<open>Token is not valid\<close>), when it throws for an expired token (reason
  \<^verbatim>\<open>Token has expired\<close>, so the two answers differ), and when the token verifies but no
  user has the encoded identifier. It attaches a user and lets the route run exactly when
  the header is \<^verbatim>\<open>Bearer \<close> followed by a non-empty token that verifies and whose
  identifier is that of a stored user, and that user (without the password) is the one
  attached; when the gate answers itself the route does not run and the database is
  unchanged.
\<close>

theorem C2_auth_gate:
  "authMiddleware env d None =
     Inl (Response 401 ''No token provided, authorization denied'' NoPayload) \<and>
   (\<not> prefix ''Bearer '' h \<longrightarrow>
      (\<exists>m. authMiddleware env d (Some h) = Inl (Response 401 m NoPayload))) \<and>
   (tok \<noteq> [] \<and> jwt_verify env tok = Throws JsonWebTokenError \<longrightarrow>
      authMiddleware env d (Some (''Bearer '' @ tok)) =
        Inl (Response 401 ''Token is not valid'' NoPayload)) \<and>
   (tok \<noteq> [] \<and> jwt_verify env tok = Throws TokenExpiredError \<longrightarrow>
      authMiddleware env d (Some (''Bearer '' @ tok)) =
        Inl (Response 401 ''Token has expired'' NoPayload)) \<and>
   (tok \<noteq> [] \<and> tok' \<noteq> [] \<and> jwt_verify env tok = Throws JsonWebTokenError \<and>
    jwt_verify env tok' = Throws TokenExpiredError \<longrightarrow>
      authMiddleware env d (Some (''Bearer '' @ tok)) \<noteq>
      authMiddleware env d (Some (''Bearer '' @ tok'))) \<and>
   (tok \<noteq> [] \<and> jwt_verify env tok = Decoded (Some s) \<and> castObjectId env s = Some i \<and>
    i \<notin> user_id ` set (users d) \<longrightarrow>
      authMiddleware env d (Some (''Bearer '' @ tok)) =
        Inl (Response 401 ''Token is not valid'' NoPayload)) \<and>
   (authMiddleware env d hdr = Inr u \<longleftrightarrow>
      (\<exists>t s' i' usr. hdr = Some (''Bearer '' @ t) \<and> t \<noteq> [] \<and>
         jwt_verify env t = Decoded (Some s') \<and> castObjectId env s' = Some i' \<and>
         find (\<lambda>x. user_id x = i') (users d) = Some usr \<and>
         u = \<lparr>view_id = user_id usr, view_username = username usr, view_email = email usr\<rparr>)) \<and>
   (\<forall>r. authMiddleware env d hdr = Inl r \<longrightarrow> router env newId hdr req d = (r, d)) \<and>
   (authMiddleware env d hdr = Inr u \<longrightarrow> router env newId hdr req d = route env newId u req d)"
proof -
  have absent: "authMiddleware env d None =
      Inl (Response 401 ''No token provided, authorization denied'' NoPayload)"
    by (rule auth_absent)
  have shape: "\<not> prefix ''Bearer '' h \<longrightarrow>
      (\<exists>m. authMiddleware env d (Some h) = Inl (Response 401 m NoPayload))"
    using auth_not_bearer [of h env d] by blast
  have invalid: "tok \<noteq> [] \<and> jwt_verify env tok = Throws JsonWebTokenError \<longrightarrow>
      authMiddleware env d (Some (''Bearer '' @ tok)) =
        Inl (Response 401 ''Token is not valid'' NoPayload)"
    using auth_verify_throws [of tok env JsonWebTokenError d] by (simp add: auth_catch_def)
  have expired: "tok \<noteq> [] \<and> jwt_verify env tok = Throws TokenExpiredError \<longrightarrow>
      authMiddleware env d (Some (''Bearer '' @ tok)) =
        Inl (Response 401 ''Token has expired'' NoPayload)"
    using auth_verify_throws [of tok env TokenExpiredError d] by (simp add: auth_catch_def)
  have differ: "tok \<noteq> [] \<and> tok' \<noteq> [] \<and> jwt_verify env tok = Throws JsonWebTokenError \<and>
      jwt_verify env tok' = Throws TokenExpiredError \<longrightarrow>
      authMiddleware env d (Some (''Bearer '' @ tok)) \<noteq>
      authMiddleware env d (Some (''Bearer '' @ tok'))"
    using auth_verify_throws [of tok env JsonWebTokenError d]
      auth_verify_throws [of tok' env TokenExpiredError d]
    by (simp add: auth_catch_def)
  have gone: "tok \<noteq> [] \<and> jwt_verify env tok = Decoded (Some s) \<and> castObjectId env s = Some i \<and>
      i \<notin> user_id ` set (users d) \<longrightarrow>
      authMiddleware env d (Some (''Bearer '' @ tok)) =
        Inl (Response 401 ''Token is not valid'' NoPayload)"
    using auth_no_user [of tok env s i d] by blast
  have pass: "authMiddleware env d hdr = Inr u \<longleftrightarrow>
      (\<exists>t s' i' usr. hdr = Some (''Bearer '' @ t) \<and> t \<noteq> [] \<and>
         jwt_verify env t = Decoded (Some s') \<and> castObjectId env s' = Some i' \<and>
         find (\<lambda>x. user_id x = i') (users d) = Some usr \<and>
         u = \<lparr>view_id = user_id usr, view_username = username usr, view_email = email usr\<rparr>)"
    by (rule auth_next_iff)
  have stop: "\<forall>r. authMiddleware env d hdr = Inl r \<longrightarrow> router env newId hdr req d = (r, d)"
    by (simp add: router_def)
  have run: "authMiddleware env d hdr = Inr u \<longrightarrow>
      router env newId hdr req d = route env newId u req d"
    by (simp add: router_def)
  from absent shape invalid expired differ gone pass stop run show ?thesis
    by (intro conjI)
qed

text \<open>
  Claim C10. A header that is exactly \<^verbatim>\<open>Bearer \<close> (an empty token) is answered with
  401 and the missing-token message, the same answer as for an absent header, and not with
  the invalid-format or the invalid-token message.
\<close>

theorem C10_empty_bearer_token:
  "authMiddleware env d (Some ''Bearer '') =
     Inl (Response 401 ''No token provided, authorization denied'' NoPayload) \<and>
   authMiddleware env d (Some ''Bearer '') = authMiddleware env d None \<and>
   authMiddleware env d (Some ''Bearer '') \<noteq> Inl (Response 401 ''Invalid token format'' NoPayload) \<and>
   authMiddleware env d (Some ''Bearer '') \<noteq> Inl (Response 401 ''Token is not valid'' NoPayload)"
  by (simp add: authMiddleware_def truthy_def)


text \<open>The gate on the sample deployment: one request for each way of failing, and one that passes.\<close>

theorem C2_auth_gate_witness:
  "(\<exists>m. authMiddleware demo_env demo_db (Some ''Basic YWxpY2U6c2VjcmV0'') =
      Inl (Response 401 m NoPayload)) \<and>
   authMiddleware demo_env demo_db (Some ''Bearer forged.token'') =
      Inl (Response 401 ''Token is not valid'' NoPayload) \<and>
   authMiddleware demo_env demo_db (Some ''Bearer old.token'') =
      Inl (Response 401 ''Token has expired'' NoPayload) \<and>
   authMiddleware demo_env demo_db (Some ''Bearer forged.token'') \<noteq>
      authMiddleware demo_env demo_db (Some ''Bearer old.token'') \<and>
   authMiddleware demo_env demo_db (Some ''Bearer ghost.token'') =
      Inl (Response 401 ''Token is not valid'' NoPayload) \<and>
   authMiddleware demo_env demo_db (Some ''Bearer alice.token'') = Inr alice_view \<and>
   router demo_env unused_id (Some ''Bearer old.token'') (DeleteTask report_id) demo_db =
      (Response 401 ''Token has expired'' NoPayload, demo_db) \<and>
   router demo_env unused_id (Some ''Bearer alice.token'') (DeleteTask report_id) demo_db =
      route demo_env unused_id alice_view (DeleteTask report_id) demo_db"
proof -
  have shape: "\<not> prefix ''Bearer '' ''Basic YWxpY2U6c2VjcmV0''" by simp
  have pass: "\<exists>t s' i' usr. Some ''Bearer alice.token'' = Some (''Bearer '' @ t) \<and> t \<noteq> [] \<and>
      jwt_verify demo_env t = Decoded (Some s') \<and> castObjectId demo_env s' = Some i' \<and>
      find (\<lambda>x. user_id x = i') (users demo_db) = Some usr \<and>
      alice_view = \<lparr>view_id = user_id usr, view_username = username usr, view_email = email usr\<rparr>"
    by (rule exI [of _ "''alice.token''"], rule exI [of _ alice_id], rule exI [of _ alice_id],
        rule exI [of _ alice])
       (simp add: demo_tokens demo_cast_ids demo_users alice_view_def alice_def)
  note forged = C2_auth_gate [where env = demo_env and d = demo_db
      and h = "''Basic YWxpY2U6c2VjcmV0''" and tok = "''forged.token''" and tok' = "''old.token''"
      and hdr = "Some ''Bearer alice.token''" and u = alice_view and newId = unused_id
      and req = "DeleteTask report_id"]
  note old = C2_auth_gate [where env = demo_env and d = demo_db and tok = "''old.token''"
      and hdr = "Some ''Bearer old.token''" and newId = unused_id and req = "DeleteTask report_id"]
  note ghost = C2_auth_gate [where env = demo_env and d = demo_db and tok = "''ghost.token''"
      and s = ghost_id and i = ghost_id]
  from forged shape have c1: "\<exists>m. authMiddleware demo_env demo_db (Some ''Basic YWxpY2U6c2VjcmV0'') =
      Inl (Response 401 m NoPayload)" by blast
  from forged have c2: "authMiddleware demo_env demo_db (Some ''Bearer forged.token'') =
      Inl (Response 401 ''Token is not valid'' NoPayload)"
    by (simp add: demo_tokens)
  from old have c3: "authMiddleware demo_env demo_db (Some ''Bearer old.token'') =
      Inl (Response 401 ''Token has expired'' NoPayload)"
    by (simp add: demo_tokens)
  have ne: "''forged.token'' \<noteq> []" "''old.token'' \<noteq> []" by simp_all
  from forged ne demo_tokens(1,2)
  have "authMiddleware demo_env demo_db (Some (''Bearer '' @ ''forged.token'')) \<noteq>
      authMiddleware demo_env demo_db (Some (''Bearer '' @ ''old.token''))"
    by blast
  then have c4: "authMiddleware demo_env demo_db (Some ''Bearer forged.token'') \<noteq>
      authMiddleware demo_env demo_db (Some ''Bearer old.token'')"
    by simp
  from ghost have c5: "authMiddleware demo_env demo_db (Some ''Bearer ghost.token'') =
      Inl (Response 401 ''Token is not valid'' NoPayload)"
    by (simp add: demo_tokens demo_cast_ids demo_users)
  from forged pass have c6: "authMiddleware demo_env demo_db (Some ''Bearer alice.token'') = Inr alice_view"
    by blast
  from old c3 have c7: "router demo_env unused_id (Some ''Bearer old.token'') (DeleteTask report_id) demo_db =
      (Response 401 ''Token has expired'' NoPayload, demo_db)"
    by blast
  from forged c6 have c8: "router demo_env unused_id (Some ''Bearer alice.token'') (DeleteTask report_id) demo_db =
      route demo_env unused_id alice_view (DeleteTask report_id) demo_db"
    by blast
  from c1 c2 c3 c4 c5 c6 c7 c8 show ?thesis by (intro conjI)
qed

theorem C10_empty_bearer_token_witness:
  "authMiddleware demo_env demo_db (Some ''Bearer '') =
     Inl (Response 401 ''No token provided, authorization denied'' NoPayload) \<and>
   authMiddleware demo_env demo_db (Some ''Bearer '') = authMiddleware demo_env demo_db None"
  using C10_empty_bearer_token [of demo_env demo_db] by blast

subsection \<open>Owner scoping of the routes\<close>

lemma doc_populate: "doc (populate us t) = t"
  by (simp add: populate_def)

lemma set_sortDocs: "set (sortDocs p b ts) = set ts"
  by (simp add: sortDocs_def)

lemma assignFields_frame:
  "task_id (assignFields b t) = task_id t" "userId (assignFields b t) = userId t"
  "dueDate (assignFields b t) = dueDate t"
  by (simp_all add: assignFields_def Let_def)

lemma getTasks_scoped:
  "(\<forall>t \<in> set (payload_tasks (payload (fst (getTasks env u q d)))). userId t = view_id u) \<and>
   snd (getTasks env u q d) = d"
  by (auto simp: getTasks_def task_find_def Let_def doc_populate set_sortDocs matches_def)

lemma getTask_scoped:
  "(\<forall>t \<in> set (payload_tasks (payload (fst (getTask env u pid d)))). userId t = view_id u) \<and>
   snd (getTask env u pid d) = d"
  by (auto simp: getTask_def task_findOne_def task_catch_def doc_populate
      dest: find_owned_SomeD split: option.splits)

lemma createTask_scoped:
  "(\<forall>t \<in> set (payload_tasks (payload (fst (createTask env newId u b d)))). userId t = view_id u) \<and>
   filter (\<lambda>t. userId t \<noteq> view_id u) (tasks (snd (createTask env newId u b d))) =
   filter (\<lambda>t. userId t \<noteq> view_id u) (tasks d)"
  by (auto simp: createTask_def task_insert_def Let_def doc_populate split: option.splits)

lemma updateTask_scoped:
  assumes "distinct (map task_id (tasks d))"
  shows "(\<forall>t \<in> set (payload_tasks (payload (fst (updateTask env u pid b d)))). userId t = view_id u) \<and>
   filter (\<lambda>t. userId t \<noteq> view_id u) (tasks (snd (updateTask env u pid b d))) =
   filter (\<lambda>t. userId t \<noteq> view_id u) (tasks d)"
proof (cases "task_findOne env pid (view_id u) (tasks d)")
  case (Inl e)
  then show ?thesis by (simp add: updateTask_def task_catch_def)
next
  case (Inr found)
  show ?thesis
  proof (cases found)
    case None
    with Inr show ?thesis by (simp add: updateTask_def)
  next
    case (Some t)
    with Inr have t: "t \<in> set (tasks d)" "userId t = view_id u"
      by (auto simp: task_findOne_def dest: find_owned_SomeD split: option.splits)
    define t0 where "t0 = (if truthy (in_dueDate b)
        then t\<lparr>dueDate := the (parseDate env (the (in_dueDate b)))\<rparr> else t)"
    define t' where "t' = assignFields b t0"
    have t': "task_id t' = task_id t" "userId t' = view_id u"
      by (simp_all add: t'_def t0_def assignFields_frame t)
    have keep: "filter (\<lambda>x. userId x \<noteq> view_id u)
        (replaceFirst (\<lambda>x. task_id x = task_id t') t' (tasks d)) =
        filter (\<lambda>x. userId x \<noteq> view_id u) (tasks d)"
      unfolding t'(1) using assms t t'(2) by (intro filter_replace_by_id) simp_all
    from Inr Some keep t' show ?thesis
      by (simp add: updateTask_def task_save_def task_catch_def Let_def doc_populate
          t0_def [symmetric] t'_def [symmetric])
  qed
qed

lemma deleteTask_scoped:
  "(\<forall>t \<in> set (payload_tasks (payload (fst (deleteTask env u pid d)))). userId t = view_id u) \<and>
   filter (\<lambda>t. userId t \<noteq> view_id u) (tasks (snd (deleteTask env u pid d))) =
   filter (\<lambda>t. userId t \<noteq> view_id u) (tasks d)"
  by (auto simp: deleteTask_def task_findOneAndDelete_def task_catch_def owned_def
      intro!: filter_removeFirst dest: find_owned_SomeD split: option.splits)

lemma updateTaskStatus_scoped:
  "(\<forall>t \<in> set (payload_tasks (payload (fst (updateTaskStatus env u pid st d)))). userId t = view_id u) \<and>
   filter (\<lambda>t. userId t \<noteq> view_id u) (tasks (snd (updateTaskStatus env u pid st d))) =
   filter (\<lambda>t. userId t \<noteq> view_id u) (tasks d)"
  by (auto simp: updateTaskStatus_def task_findOneAndUpdate_def task_catch_def owned_def doc_populate
      intro!: filter_replaceFirst dest: find_owned_SomeD split: option.splits)


lemma route_scoped:
  assumes "distinct (map task_id (tasks d))"
  shows "(\<forall>t \<in> set (payload_tasks (payload (fst (route env newId u req d)))). userId t = view_id u) \<and>
   filter (\<lambda>t. userId t \<noteq> view_id u) (tasks (snd (route env newId u req d))) =
   filter (\<lambda>t. userId t \<noteq> view_id u) (tasks d)"
proof (cases req)
  case (GetTasks q)
  with getTasks_scoped [of env u q d] show ?thesis by (simp add: route_def)
next
  case (GetTask pid)
  with getTask_scoped [of env u pid d] show ?thesis by (simp add: route_def)
next
  case (PostTask b)
  with createTask_scoped [of env newId u b d] show ?thesis by (simp add: route_def)
next
  case (PutTask pid b)
  with updateTask_scoped [OF assms, of env u pid b] show ?thesis by (simp add: route_def)
next
  case (DeleteTask pid)
  with deleteTask_scoped [of env u pid d] show ?thesis by (simp add: route_def)
next
  case (PatchTaskStatus pid st)
  with updateTaskStatus_scoped [of env u pid st d] show ?thesis by (simp add: route_def)
qed

lemma foreign_not_found:
  assumes "distinct (map task_id (tasks d))" and "T \<in> set (tasks d)"
    and "userId T \<noteq> view_id u" and "castObjectId env pid = Some (task_id T)"
  shows "getTask env u pid d = (Response 404 ''Task not found'' NoPayload, d)"
    and "updateTask env u pid b d = (Response 404 ''Task not found'' NoPayload, d)"
    and "deleteTask env u pid d = (Response 404 ''Task not found'' NoPayload, d)"
    and "truthy st \<Longrightarrow> the st \<in> set statusEnum \<Longrightarrow>
         updateTaskStatus env u pid st d = (Response 404 ''Task not found'' NoPayload, d)"
proof -
  from assms have none: "find (owned (task_id T) (view_id u)) (tasks d) = None"
    by (intro find_owned_foreign)
  with assms(4) show "getTask env u pid d = (Response 404 ''Task not found'' NoPayload, d)"
    by (simp add: getTask_def task_findOne_def)
  from none assms(4) show "updateTask env u pid b d = (Response 404 ''Task not found'' NoPayload, d)"
    by (simp add: updateTask_def task_findOne_def)
  from none assms(4) show "deleteTask env u pid d = (Response 404 ''Task not found'' NoPayload, d)"
    by (simp add: deleteTask_def task_findOneAndDelete_def)
  from none assms(4) show "truthy st \<Longrightarrow> the st \<in> set statusEnum \<Longrightarrow>
         updateTaskStatus env u pid st d = (Response 404 ''Task not found'' NoPayload, d)"
    by (simp add: updateTaskStatus_def task_findOneAndUpdate_def)
qed

text \<open>
  Claim C1. In a collection with unique identifiers, a request by a user for the
  identifier of a task that another user owns is answered 404 (\<^verbatim>\<open>Task not found\<close>) by
  the get route, never with the task and never with 403, and likewise by the update, the
  delete and (for a valid status) the status route, the database staying as it was. Every
  route queries by the caller's identity: every task a response carries is owned by the
  caller, and the tasks of all other owners are the same after the request as before.
\<close>

theorem C1_owner_scoping:
  assumes "distinct (map task_id (tasks d))"
  shows "(T \<in> set (tasks d) \<and> userId T \<noteq> view_id u \<and> castObjectId env pid = Some (task_id T) \<longrightarrow>
      getTask env u pid d = (Response 404 ''Task not found'' NoPayload, d) \<and>
      updateTask env u pid b d = (Response 404 ''Task not found'' NoPayload, d) \<and>
      deleteTask env u pid d = (Response 404 ''Task not found'' NoPayload, d) \<and>
      (truthy st \<and> the st \<in> set statusEnum \<longrightarrow>
         updateTaskStatus env u pid st d = (Response 404 ''Task not found'' NoPayload, d))) \<and>
    (\<forall>t \<in> set (payload_tasks (payload (fst (route env newId u req d)))). userId t = view_id u) \<and>
    filter (\<lambda>t. userId t \<noteq> view_id u) (tasks (snd (route env newId u req d))) =
    filter (\<lambda>t. userId t \<noteq> view_id u) (tasks d)"
  using foreign_not_found [OF assms, of T u env pid] route_scoped [OF assms, of env newId u req]
  by blast

lemma demo_db_facts:
  "distinct (map task_id (tasks demo_db))"
  "report \<in> set (tasks demo_db)"
  "userId report = view_id alice_view"
  "userId report \<noteq> view_id bob_view"
  "castObjectId demo_env report_id = Some (task_id report)"
  "filter (\<lambda>t. userId t \<noteq> view_id bob_view) (tasks demo_db) = [report, slides]"
  by (simp_all add: demo_db_def report_def groceries_def slides_def report_id_def groceries_id_def
      slides_id_def alice_view_def bob_view_def alice_id_def bob_id_def demo_env_def isHexDigit_def)

text \<open>
  On the sample deployment Bob asks for, updates and deletes Alice's report by its
  identifier: 404 each time, and Alice's tasks are stored as before.
\<close>

theorem C1_owner_scoping_witness:
  "getTask demo_env bob_view report_id demo_db = (Response 404 ''Task not found'' NoPayload, demo_db) \<and>
   updateTask demo_env bob_view report_id (no_fields\<lparr>in_title := Some ''Mine now''\<rparr>) demo_db =
     (Response 404 ''Task not found'' NoPayload, demo_db) \<and>
   deleteTask demo_env bob_view report_id demo_db = (Response 404 ''Task not found'' NoPayload, demo_db) \<and>
   filter (\<lambda>t. userId t \<noteq> view_id bob_view)
     (tasks (snd (route demo_env unused_id bob_view (DeleteTask report_id) demo_db))) =
     [report, slides]"
  using C1_owner_scoping [OF demo_db_facts(1), where T = report and u = bob_view and env = demo_env
      and pid = report_id and b = "no_fields\<lparr>in_title := Some ''Mine now''\<rparr>" and newId = unused_id
      and req = "DeleteTask report_id"]
    demo_db_facts(2,4,5,6)
  by simp

subsection \<open>Updating the status\<close>

lemma updateTaskStatus_ok:
  assumes "distinct (map task_id (tasks d))" and "T \<in> set (tasks d)"
    and "userId T = view_id u" and "castObjectId env pid = Some (task_id T)"
    and "s \<in> set statusEnum"
  shows "updateTaskStatus env u pid (Some s) d =
     (Response 200 ''Task status updated successfully'' (TaskView (populate (users d) (T\<lparr>status := s\<rparr>))),
      d\<lparr>tasks := map (\<lambda>t. if task_id t = task_id T then T\<lparr>status := s\<rparr> else t) (tasks d)\<rparr>)"
proof -
  from assms(1,2) have found: "find (owned (task_id T) (view_id u)) (tasks d) = Some T"
    unfolding assms(3) [symmetric] by (rule find_owned_distinct)
  from assms(5) have ne: "truthy (Some s)" by (auto simp: truthy_def statusEnum_def)
  from found assms(4,5) ne show ?thesis
    by (simp add: updateTaskStatus_def task_findOneAndUpdate_def
        replaceFirst_owned_map [OF assms(1) found])
qed

text \<open>
  Claim C7. For a stored task of the caller, the status route with status
  \<^verbatim>\<open>completed\<close> answers 200 with the task whose status is completed and whose other
  fields are as before, and stores exactly that; a second identical call answers the same
  200 response and leaves the database as the first call left it.
\<close>

theorem C7_status_update_idempotent:
  assumes "distinct (map task_id (tasks d))" and "T \<in> set (tasks d)"
    and "userId T = view_id u" and "castObjectId env pid = Some (task_id T)"
  shows "(let completed = T\<lparr>status := ''completed''\<rparr>;
              first = updateTaskStatus env u pid (Some ''completed'') d;
              second = updateTaskStatus env u pid (Some ''completed'') (snd first)
          in fst first = Response 200 ''Task status updated successfully''
                (TaskView (populate (users d) completed)) \<and>
             tasks (snd first) =
                map (\<lambda>t. if task_id t = task_id T then completed else t) (tasks d) \<and>
             users (snd first) = users d \<and>
             fst second = fst first \<and> statusCode (fst second) = 200 \<and>
             snd second = snd first)"
proof -
  define completed where "completed = T\<lparr>status := ''completed''\<rparr>"
  define d1 where "d1 = d\<lparr>tasks := map (\<lambda>t. if task_id t = task_id T then completed else t) (tasks d)\<rparr>"
  have enum: "''completed'' \<in> set statusEnum" by (simp add: statusEnum_def)
  have first: "updateTaskStatus env u pid (Some ''completed'') d =
      (Response 200 ''Task status updated successfully'' (TaskView (populate (users d) completed)), d1)"
    unfolding completed_def d1_def by (rule updateTaskStatus_ok [OF assms enum])
  have ids: "map task_id (tasks d1) = map task_id (tasks d)"
    by (simp add: d1_def completed_def comp_def cong: map_cong)
  have dist1: "distinct (map task_id (tasks d1))"
    using assms(1) by (simp only: ids)
  have mem1: "completed \<in> set (tasks d1)"
    using assms(2) by (force simp: d1_def)
  have own1: "userId completed = view_id u" "task_id completed = task_id T"
    by (simp_all add: completed_def assms(3))
  have cast1: "castObjectId env pid = Some (task_id completed)"
    by (simp add: own1 assms(4))
  have again: "map (\<lambda>t. if task_id t = task_id completed then completed\<lparr>status := ''completed''\<rparr> else t)
      (tasks d1) = tasks d1"
    by (simp add: d1_def completed_def comp_def cong: map_cong)
  have second: "updateTaskStatus env u pid (Some ''completed'') d1 =
      (Response 200 ''Task status updated successfully'' (TaskView (populate (users d) completed)), d1)"
    unfolding updateTaskStatus_ok [OF dist1 mem1 own1(1) cast1 enum] again
    by (simp add: d1_def completed_def)
  show ?thesis
    by (simp add: Let_def first second completed_def [symmetric]) (simp add: d1_def)
qed


text \<open>
  Alice completes her report twice on the sample deployment.
\<close>

theorem C7_status_update_idempotent_witness:
  "fst (updateTaskStatus demo_env alice_view report_id (Some ''completed'') demo_db) =
     Response 200 ''Task status updated successfully''
       (TaskView (populate (users demo_db) (report\<lparr>status := ''completed''\<rparr>))) \<and>
   tasks (snd (updateTaskStatus demo_env alice_view report_id (Some ''completed'') demo_db)) =
     [report\<lparr>status := ''completed''\<rparr>, groceries, slides] \<and>
   updateTaskStatus demo_env alice_view report_id (Some ''completed'')
     (snd (updateTaskStatus demo_env alice_view report_id (Some ''completed'') demo_db)) =
   updateTaskStatus demo_env alice_view report_id (Some ''completed'') demo_db"
proof -
  have ids: "task_id groceries \<noteq> task_id report" "task_id slides \<noteq> task_id report"
    by (simp_all add: report_def groceries_def slides_def report_id_def groceries_id_def slides_id_def)
  have ts: "tasks demo_db = [report, groceries, slides]" by (simp add: demo_db_def)
  from C7_status_update_idempotent [OF demo_db_facts(1,2,3,5)] ids show ?thesis
    by (simp add: Let_def ts prod_eq_iff)
qed

subsection \<open>Malformed identifiers\<close>

lemma malformed_id:
  assumes "castObjectId env pid = None"
  shows "getTask env u pid d = (Response 400 ''Invalid task ID'' NoPayload, d)"
    and "updateTask env u pid b d = (Response 400 ''Invalid task ID'' NoPayload, d)"
    and "deleteTask env u pid d = (Response 400 ''Invalid task ID'' NoPayload, d)"
    and "updateTaskStatus env u pid st d =
      (Response 400 (if truthy st then ''Invalid task ID'' else ''Status is required'') NoPayload, d)"
  using assms
  by (simp_all add: getTask_def updateTask_def deleteTask_def updateTaskStatus_def
      task_findOne_def task_findOneAndDelete_def task_findOneAndUpdate_def task_catch_def)

text \<open>
  Claim C6. When the identifier in the path does not cast to an object identifier, the
  get, update, delete and status routes answer 400 with a message and leave the database
  unchanged; so does the router for every such request that passes the gate. The status
  is 400, hence never 500.
\<close>

theorem C6_malformed_identifier:
  assumes "castObjectId env pid = None"
  shows "getTask env u pid d = (Response 400 ''Invalid task ID'' NoPayload, d) \<and>
    updateTask env u pid b d = (Response 400 ''Invalid task ID'' NoPayload, d) \<and>
    deleteTask env u pid d = (Response 400 ''Invalid task ID'' NoPayload, d) \<and>
    updateTaskStatus env u pid st d =
      (Response 400 (if truthy st then ''Invalid task ID'' else ''Status is required'') NoPayload, d) \<and>
    (authMiddleware env d hdr = Inr u \<and>
     req \<in> {GetTask pid, PutTask pid b, DeleteTask pid, PatchTaskStatus pid st} \<longrightarrow>
       statusCode (fst (router env newId hdr req d)) = 400 \<and>
       message (fst (router env newId hdr req d)) \<noteq> [] \<and>
       snd (router env newId hdr req d) = d)"
  using assms by (auto simp: malformed_id router_def route_def split: if_splits)

text \<open>
  The four routes on the sample deployment with the identifier \<^verbatim>\<open>not-an-id\<close>.
\<close>

theorem C6_malformed_identifier_witness:
  "getTask demo_env alice_view ''not-an-id'' demo_db = (Response 400 ''Invalid task ID'' NoPayload, demo_db) \<and>
   updateTask demo_env alice_view ''not-an-id'' no_fields demo_db =
     (Response 400 ''Invalid task ID'' NoPayload, demo_db) \<and>
   deleteTask demo_env alice_view ''not-an-id'' demo_db =
     (Response 400 ''Invalid task ID'' NoPayload, demo_db) \<and>
   updateTaskStatus demo_env alice_view ''not-an-id'' (Some ''completed'') demo_db =
     (Response 400 ''Invalid task ID'' NoPayload, demo_db) \<and>
   statusCode (fst (router demo_env unused_id (Some ''Bearer alice.token'')
     (PatchTaskStatus ''not-an-id'' (Some ''completed'')) demo_db)) = 400"
proof -
  have pass: "authMiddleware demo_env demo_db (Some (''Bearer '' @ ''alice.token'')) = Inr alice_view"
    unfolding auth_next_iff
    by (rule exI [of _ "''alice.token''"], rule exI [of _ alice_id], rule exI [of _ alice_id],
        rule exI [of _ alice])
       (simp add: demo_tokens demo_cast_ids demo_users alice_view_def alice_def)
  have t: "truthy (Some ''completed'')" by (simp add: truthy_def)
  from C6_malformed_identifier [OF demo_cast_malformed, of alice_view demo_db no_fields
      "Some ''completed''" "Some ''Bearer alice.token''"
      "PatchTaskStatus ''not-an-id'' (Some ''completed'')" unused_id] pass t
  show ?thesis by simp
qed

subsection \<open>Listing\<close>









subsection \<open>Updating a task\<close>

lemma assignFields_eq:
  "assignFields b t =
     t\<lparr>title := (if truthy (in_title b) then trim (the (in_title b)) else title t),
       description := (case in_description b of None \<Rightarrow> description t | Some s \<Rightarrow> trim s),
       status := (if truthy (in_status b) then the (in_status b) else status t),
       priority := (if truthy (in_priority b) then the (in_priority b) else priority t)\<rparr>"
  by (cases "in_description b") (simp_all add: assignFields_def Let_def)

lemma updateTask_found:
  assumes "distinct (map task_id (tasks d))" and "T \<in> set (tasks d)"
    and "userId T = view_id u" and "castObjectId env pid = Some (task_id T)"
  shows "task_findOne env pid (view_id u) (tasks d) = Inr (Some T)"
proof -
  from assms(1,2) have "find (owned (task_id T) (view_id u)) (tasks d) = Some T"
    unfolding assms(3) [symmetric] by (rule find_owned_distinct)
  with assms(4) show ?thesis by (simp add: task_findOne_def)
qed

lemma updateTask_bad_date:
  assumes "distinct (map task_id (tasks d))" and "T \<in> set (tasks d)"
    and "userId T = view_id u" and "castObjectId env pid = Some (task_id T)"
    and "truthy (in_dueDate b)" and "parseDate env (the (in_dueDate b)) = None"
  shows "updateTask env u pid b d = (Response 400 ''Invalid due date format'' NoPayload, d)"
  using assms(5,6) by (simp add: updateTask_def updateTask_found [OF assms(1-4)])

lemma updateTask_ok:
  assumes "distinct (map task_id (tasks d))" and "T \<in> set (tasks d)"
    and "userId T = view_id u" and "castObjectId env pid = Some (task_id T)"
    and "\<not> (truthy (in_dueDate b) \<and> parseDate env (the (in_dueDate b)) = None)"
    and "T' = assignFields b (if truthy (in_dueDate b)
                then T\<lparr>dueDate := the (parseDate env (the (in_dueDate b)))\<rparr> else T)"
    and "validateTask T'"
  shows "updateTask env u pid b d =
     (Response 200 ''Task updated successfully'' (TaskView (populate (users d) T')),
      d\<lparr>tasks := map (\<lambda>t. if task_id t = task_id T then T' else t) (tasks d)\<rparr>)"
proof -
  have id: "task_id T' = task_id T"
    by (simp add: assms(6) assignFields_frame)
  have "replaceFirst (\<lambda>x. task_id x = task_id T') T' (tasks d) =
      map (\<lambda>t. if task_id t = task_id T then T' else t) (tasks d)"
    unfolding id using assms(1) by (rule replaceFirst_id_map)
  with assms(5,7) show ?thesis
    by (simp add: updateTask_def updateTask_found [OF assms(1-4)] Let_def task_save_def
        assms(6) [symmetric])
qed

lemma updateTask_rejected:
  assumes "distinct (map task_id (tasks d))" and "T \<in> set (tasks d)"
    and "userId T = view_id u" and "castObjectId env pid = Some (task_id T)"
    and "\<not> (truthy (in_dueDate b) \<and> parseDate env (the (in_dueDate b)) = None)"
    and "T' = assignFields b (if truthy (in_dueDate b)
                then T\<lparr>dueDate := the (parseDate env (the (in_dueDate b)))\<rparr> else T)"
    and "\<not> validateTask T'"
  shows "updateTask env u pid b d =
     (Response 500 ''Server error while updating task'' NoPayload, d)"
  using assms(5,7)
  by (simp add: updateTask_def updateTask_found [OF assms(1-4)] Let_def task_save_def
      task_catch_def assms(6) [symmetric])

lemma map_replace_same:
  assumes "distinct (map task_id ts)" and "T \<in> set ts"
  shows "map (\<lambda>t. if task_id t = task_id T then T else t) ts = ts"
proof -
  from assms have "\<forall>x \<in> set ts. task_id x = task_id T \<longrightarrow> x = T"
    by (metis distinct_map inj_onD)
  then show ?thesis by (induction ts) auto
qed


lemma assignFields_empty_like_absent:
  "assignFields (b\<lparr>in_title := Some []\<rparr>) = assignFields (b\<lparr>in_title := None\<rparr>)"
  "assignFields (b\<lparr>in_status := Some []\<rparr>) = assignFields (b\<lparr>in_status := None\<rparr>)"
  "assignFields (b\<lparr>in_priority := Some []\<rparr>) = assignFields (b\<lparr>in_priority := None\<rparr>)"
  by (simp_all add: fun_eq_iff assignFields_def truthy_def)

lemma updateTask_cong:
  assumes "in_dueDate b = in_dueDate b'" and "assignFields b = assignFields b'"
  shows "updateTask env u pid b d = updateTask env u pid b' d"
proof (cases "task_findOne env pid (view_id u) (tasks d)")
  case (Inl e)
  then show ?thesis by (simp add: updateTask_def)
next
  case (Inr found)
  then show ?thesis
    by (cases found) (simp_all add: updateTask_def assms)
qed

lemma updateTask_empty_like_absent:
  "updateTask env u pid (b\<lparr>in_title := Some []\<rparr>) d = updateTask env u pid (b\<lparr>in_title := None\<rparr>) d"
  "updateTask env u pid (b\<lparr>in_status := Some []\<rparr>) d = updateTask env u pid (b\<lparr>in_status := None\<rparr>) d"
  "updateTask env u pid (b\<lparr>in_priority := Some []\<rparr>) d = updateTask env u pid (b\<lparr>in_priority := None\<rparr>) d"
  by (rule updateTask_cong, simp, rule assignFields_empty_like_absent)+

lemma updateTask_no_fields:
  assumes "distinct (map task_id (tasks d))" and "T \<in> set (tasks d)"
    and "userId T = view_id u" and "castObjectId env pid = Some (task_id T)"
    and "validateTask T"
  shows "updateTask env u pid no_fields d =
     (Response 200 ''Task updated successfully'' (TaskView (populate (users d) T)), d)"
proof -
  have "updateTask env u pid no_fields d =
     (Response 200 ''Task updated successfully'' (TaskView (populate (users d) T)),
      d\<lparr>tasks := map (\<lambda>t. if task_id t = task_id T then T else t) (tasks d)\<rparr>)"
    using assms(5)
    by (intro updateTask_ok [OF assms(1-4)])
       (simp_all add: no_fields_def truthy_def assignFields_eq)
  then show ?thesis by (simp add: map_replace_same [OF assms(1,2)])
qed

lemma updateTask_clear_description:
  assumes "distinct (map task_id (tasks d))" and "T \<in> set (tasks d)"
    and "userId T = view_id u" and "castObjectId env pid = Some (task_id T)"
    and "validateTask T"
  shows "updateTask env u pid (no_fields\<lparr>in_description := Some []\<rparr>) d =
     (Response 200 ''Task updated successfully''
        (TaskView (populate (users d) (T\<lparr>description := []\<rparr>))),
      d\<lparr>tasks := map (\<lambda>t. if task_id t = task_id T then T\<lparr>description := []\<rparr> else t) (tasks d)\<rparr>)"
  using assms(5)
  by (intro updateTask_ok [OF assms(1-4)])
     (simp_all add: no_fields_def truthy_def assignFields_eq trim_Nil validateTask_def jsLength_def)

text \<open>
  Claim C9. In the update route a title, a status or a priority given as the empty string
  is treated exactly as if it were absent: the two requests have the same response and the
  same effect, whatever else the body holds. For a stored, schema-valid task of the caller,
  a body holding only such an empty field answers 200 with the task as it was, and the
  database is unchanged. The description alone is different: given as the empty string it
  is stored as empty, absent it is kept.
\<close>

theorem C9_empty_string_is_absent:
  "updateTask env u pid (b\<lparr>in_title := Some []\<rparr>) d = updateTask env u pid (b\<lparr>in_title := None\<rparr>) d \<and>
   updateTask env u pid (b\<lparr>in_status := Some []\<rparr>) d = updateTask env u pid (b\<lparr>in_status := None\<rparr>) d \<and>
   updateTask env u pid (b\<lparr>in_priority := Some []\<rparr>) d =
     updateTask env u pid (b\<lparr>in_priority := None\<rparr>) d \<and>
   (distinct (map task_id (tasks d)) \<and> T \<in> set (tasks d) \<and> userId T = view_id u \<and>
    castObjectId env pid = Some (task_id T) \<and> validateTask T \<longrightarrow>
      updateTask env u pid (no_fields\<lparr>in_title := Some []\<rparr>) d =
        (Response 200 ''Task updated successfully'' (TaskView (populate (users d) T)), d) \<and>
      updateTask env u pid (no_fields\<lparr>in_status := Some []\<rparr>) d =
        (Response 200 ''Task updated successfully'' (TaskView (populate (users d) T)), d) \<and>
      updateTask env u pid (no_fields\<lparr>in_priority := Some []\<rparr>) d =
        (Response 200 ''Task updated successfully'' (TaskView (populate (users d) T)), d) \<and>
      updateTask env u pid (no_fields\<lparr>in_description := None\<rparr>) d =
        (Response 200 ''Task updated successfully'' (TaskView (populate (users d) T)), d) \<and>
      updateTask env u pid (no_fields\<lparr>in_description := Some []\<rparr>) d =
        (Response 200 ''Task updated successfully''
           (TaskView (populate (users d) (T\<lparr>description := []\<rparr>))),
         d\<lparr>tasks := map (\<lambda>t. if task_id t = task_id T then T\<lparr>description := []\<rparr> else t)
                (tasks d)\<rparr>))"
proof -
  have absent: "no_fields\<lparr>in_title := None\<rparr> = no_fields" "no_fields\<lparr>in_status := None\<rparr> = no_fields"
    "no_fields\<lparr>in_priority := None\<rparr> = no_fields" "no_fields\<lparr>in_description := None\<rparr> = no_fields"
    by (simp_all add: no_fields_def)
  show ?thesis
    using updateTask_no_fields [of d T u env pid] updateTask_clear_description [of d T u env pid]
    by (simp add: updateTask_empty_like_absent absent)
qed

lemma demo_valid: "validateTask report" "validateTask groceries" "validateTask slides"
  by code_simp+

text \<open>
  Alice sends an empty status, an empty priority and an empty description for her report.
\<close>

theorem C9_empty_string_is_absent_witness:
  "updateTask demo_env alice_view report_id (no_fields\<lparr>in_status := Some []\<rparr>) demo_db =
     (Response 200 ''Task updated successfully'' (TaskView (populate (users demo_db) report)), demo_db) \<and>
   updateTask demo_env alice_view report_id (no_fields\<lparr>in_priority := Some []\<rparr>) demo_db =
     (Response 200 ''Task updated successfully'' (TaskView (populate (users demo_db) report)), demo_db) \<and>
   updateTask demo_env alice_view report_id (no_fields\<lparr>in_description := Some []\<rparr>) demo_db \<noteq>
   updateTask demo_env alice_view report_id (no_fields\<lparr>in_description := None\<rparr>) demo_db"
proof -
  have differ: "report\<lparr>description := []\<rparr> \<noteq> report" by (simp add: report_def)
  have "doc (populate (users demo_db) (report\<lparr>description := []\<rparr>)) \<noteq>
      doc (populate (users demo_db) report)"
    using differ by (simp only: doc_populate) simp
  then have views: "populate (users demo_db) (report\<lparr>description := []\<rparr>) \<noteq>
      populate (users demo_db) report"
    by auto
  from C9_empty_string_is_absent [of demo_env alice_view report_id no_fields demo_db report]
    demo_db_facts(1,2,3,5) demo_valid(1)
  have e: "updateTask demo_env alice_view report_id (no_fields\<lparr>in_status := Some []\<rparr>) demo_db =
      (Response 200 ''Task updated successfully'' (TaskView (populate (users demo_db) report)), demo_db)"
    "updateTask demo_env alice_view report_id (no_fields\<lparr>in_priority := Some []\<rparr>) demo_db =
      (Response 200 ''Task updated successfully'' (TaskView (populate (users demo_db) report)), demo_db)"
    "updateTask demo_env alice_view report_id (no_fields\<lparr>in_description := None\<rparr>) demo_db =
      (Response 200 ''Task updated successfully'' (TaskView (populate (users demo_db) report)), demo_db)"
    "updateTask demo_env alice_view report_id (no_fields\<lparr>in_description := Some []\<rparr>) demo_db =
      (Response 200 ''Task updated successfully''
         (TaskView (populate (users demo_db) (report\<lparr>description := []\<rparr>))),
       demo_db\<lparr>tasks := map (\<lambda>t. if task_id t = task_id report then report\<lparr>description := []\<rparr> else t)
              (tasks demo_db)\<rparr>)"
    by blast+
  show ?thesis unfolding e using views by simp
qed


text \<open>
  Claim C5, as amended. For a stored task of the caller and a body whose fields are
  strings, the update route answers 400
  (\<^verbatim>\<open>Invalid due date format\<close>) and changes nothing when a non-empty due date is given
  that does not parse. Otherwise, when the resulting task passes the schema, it answers 200
  and stores the task with exactly these changes: title, status and priority are
  overwritten when given non-empty (the title trimmed), the due date when given non-empty,
  the description whenever it is given, trimmed, the empty string included; every other
  field and every other task is as before. In particular a body with only an empty
  description clears the description and keeps title, due date, status and priority.
\<close>

theorem C5_update_overwrites_supplied_fields:
  assumes "distinct (map task_id (tasks d))" and "T \<in> set (tasks d)"
    and "userId T = view_id u" and "castObjectId env pid = Some (task_id T)"
  shows "(truthy (in_dueDate b) \<and> parseDate env (the (in_dueDate b)) = None \<longrightarrow>
       updateTask env u pid b d = (Response 400 ''Invalid due date format'' NoPayload, d)) \<and>
    (let T' = T\<lparr>title := (if truthy (in_title b) then trim (the (in_title b)) else title T),
                description := (case in_description b of None \<Rightarrow> description T | Some s \<Rightarrow> trim s),
                dueDate := (if truthy (in_dueDate b) then the (parseDate env (the (in_dueDate b)))
                            else dueDate T),
                status := (if truthy (in_status b) then the (in_status b) else status T),
                priority := (if truthy (in_priority b) then the (in_priority b) else priority T)\<rparr>
     in \<not> (truthy (in_dueDate b) \<and> parseDate env (the (in_dueDate b)) = None) \<and> validateTask T' \<longrightarrow>
        updateTask env u pid b d =
          (Response 200 ''Task updated successfully'' (TaskView (populate (users d) T')),
           d\<lparr>tasks := map (\<lambda>t. if task_id t = task_id T then T' else t) (tasks d)\<rparr>)) \<and>
    (validateTask T \<longrightarrow>
       updateTask env u pid (no_fields\<lparr>in_description := Some []\<rparr>) d =
         (Response 200 ''Task updated successfully''
            (TaskView (populate (users d) (T\<lparr>description := []\<rparr>))),
          d\<lparr>tasks := map (\<lambda>t. if task_id t = task_id T then T\<lparr>description := []\<rparr> else t)
                 (tasks d)\<rparr>))"
proof -
  define T' where "T' = T\<lparr>title := (if truthy (in_title b) then trim (the (in_title b)) else title T),
                description := (case in_description b of None \<Rightarrow> description T | Some s \<Rightarrow> trim s),
                dueDate := (if truthy (in_dueDate b) then the (parseDate env (the (in_dueDate b)))
                            else dueDate T),
                status := (if truthy (in_status b) then the (in_status b) else status T),
                priority := (if truthy (in_priority b) then the (in_priority b) else priority T)\<rparr>"
  have T': "T' = assignFields b (if truthy (in_dueDate b)
                then T\<lparr>dueDate := the (parseDate env (the (in_dueDate b)))\<rparr> else T)"
    by (cases "in_description b") (simp_all add: T'_def assignFields_eq)
  have bad: "truthy (in_dueDate b) \<and> parseDate env (the (in_dueDate b)) = None \<longrightarrow>
       updateTask env u pid b d = (Response 400 ''Invalid due date format'' NoPayload, d)"
    using updateTask_bad_date [OF assms] by blast
  have good: "\<not> (truthy (in_dueDate b) \<and> parseDate env (the (in_dueDate b)) = None) \<and> validateTask T' \<longrightarrow>
        updateTask env u pid b d =
          (Response 200 ''Task updated successfully'' (TaskView (populate (users d) T')),
           d\<lparr>tasks := map (\<lambda>t. if task_id t = task_id T then T' else t) (tasks d)\<rparr>)"
    using updateTask_ok [OF assms _ T'] by blast
  have clear: "validateTask T \<longrightarrow>
       updateTask env u pid (no_fields\<lparr>in_description := Some []\<rparr>) d =
         (Response 200 ''Task updated successfully''
            (TaskView (populate (users d) (T\<lparr>description := []\<rparr>))),
          d\<lparr>tasks := map (\<lambda>t. if task_id t = task_id T then T\<lparr>description := []\<rparr> else t)
                 (tasks d)\<rparr>)"
    using updateTask_clear_description [OF assms] by blast
  from bad good clear show ?thesis
    unfolding Let_def T'_def by (intro conjI)
qed

text \<open>A title of white space only is trimmed to nothing, and the save is refused by the schema.\<close>

lemma updateTask_no_break_space_title:
  "updateTask demo_env alice_view report_id (no_fields\<lparr>in_title := Some [CHR 0xC2, CHR 0xA0]\<rparr>)
      demo_db =
     (Response 500 ''Server error while updating task'' NoPayload, demo_db)"
proof (rule updateTask_rejected [OF demo_db_facts(1,2,3,5) _ refl])
  show "\<not> (truthy (in_dueDate (no_fields\<lparr>in_title := Some [CHR 0xC2, CHR 0xA0]\<rparr>)) \<and>
      parseDate demo_env (the (in_dueDate (no_fields\<lparr>in_title := Some [CHR 0xC2, CHR 0xA0]\<rparr>))) = None)"
    by (simp add: no_fields_def truthy_def)
  show "\<not> validateTask (assignFields (no_fields\<lparr>in_title := Some [CHR 0xC2, CHR 0xA0]\<rparr>)
      (if truthy (in_dueDate (no_fields\<lparr>in_title := Some [CHR 0xC2, CHR 0xA0]\<rparr>))
       then report\<lparr>dueDate := the (parseDate demo_env
              (the (in_dueDate (no_fields\<lparr>in_title := Some [CHR 0xC2, CHR 0xA0]\<rparr>))))\<rparr>
       else report))"
    by (simp add: no_fields_def truthy_def assignFields_eq trim_examples validateTask_def)
qed

text \<open>
  Claim C5 as stated fails: Alice's report is stored with the title
  \<^verbatim>\<open>Write report\<close>; an update whose body gives the title as the empty string answers
  200 and the title is not overwritten.
\<close>

theorem C5_counterexample_empty_title:
  "report \<in> set (tasks demo_db) \<and> userId report = view_id alice_view \<and>
   title report = ''Write report'' \<and>
   in_title (no_fields\<lparr>in_title := Some []\<rparr>) = Some [] \<and>
   updateTask demo_env alice_view report_id (no_fields\<lparr>in_title := Some []\<rparr>) demo_db =
     (Response 200 ''Task updated successfully'' (TaskView (populate (users demo_db) report)), demo_db)"
proof -
  have "updateTask demo_env alice_view report_id (no_fields\<lparr>in_title := Some []\<rparr>) demo_db =
      updateTask demo_env alice_view report_id no_fields demo_db"
    using updateTask_empty_like_absent(1) [of demo_env alice_view report_id no_fields demo_db]
    by (simp add: no_fields_def)
  also have "\<dots> = (Response 200 ''Task updated successfully''
      (TaskView (populate (users demo_db) report)), demo_db)"
    by (rule updateTask_no_fields [OF demo_db_facts(1,2,3,5) demo_valid(1)])
  finally show ?thesis
    by (simp add: demo_db_facts) (simp add: report_def)
qed

lemma demo_dates:
  "parseDate demo_env ''2030-01-01T00:00:00Z'' = Some 1893456000000"
  "parseDate demo_env ''not-a-date'' = None"
  by (simp_all add: demo_env_def)

text \<open>
  Alice updates her report: an unparsable due date, a new title and status, an empty description.
\<close>

theorem C5_update_overwrites_supplied_fields_witness:
  "updateTask demo_env alice_view report_id (no_fields\<lparr>in_dueDate := Some ''not-a-date''\<rparr>) demo_db =
     (Response 400 ''Invalid due date format'' NoPayload, demo_db) \<and>
   updateTask demo_env alice_view report_id
       (no_fields\<lparr>in_title := Some ''  Final report '', in_status := Some ''in-progress''\<rparr>) demo_db =
     (Response 200 ''Task updated successfully''
        (TaskView (populate (users demo_db)
           (report\<lparr>title := ''Final report'', status := ''in-progress''\<rparr>))),
      demo_db\<lparr>tasks :=
        [report\<lparr>title := ''Final report'', status := ''in-progress''\<rparr>, groceries, slides]\<rparr>) \<and>
   updateTask demo_env alice_view report_id (no_fields\<lparr>in_description := Some []\<rparr>) demo_db =
     (Response 200 ''Task updated successfully''
        (TaskView (populate (users demo_db) (report\<lparr>description := []\<rparr>))),
      demo_db\<lparr>tasks := [report\<lparr>description := []\<rparr>, groceries, slides]\<rparr>)"
proof -
  note inst = C5_update_overwrites_supplied_fields [OF demo_db_facts(1,2,3,5)]
  have ids: "task_id groceries \<noteq> task_id report" "task_id slides \<noteq> task_id report"
    by (simp_all add: report_def groceries_def slides_def report_id_def groceries_id_def slides_id_def)
  have ts: "tasks demo_db = [report, groceries, slides]" by (simp add: demo_db_def)
  have tr: "trim ''  Final report '' = ''Final report''"
    by code_simp
  have valid: "validateTask (report\<lparr>title := ''Final report'', status := ''in-progress''\<rparr>)"
    by code_simp
  have bad: "truthy (in_dueDate (no_fields\<lparr>in_dueDate := Some ''not-a-date''\<rparr>)) \<and>
      parseDate demo_env (the (in_dueDate (no_fields\<lparr>in_dueDate := Some ''not-a-date''\<rparr>))) = None"
    by (simp add: truthy_def demo_dates)
  from inst [of "no_fields\<lparr>in_dueDate := Some ''not-a-date''\<rparr>"] bad
  have c1: "updateTask demo_env alice_view report_id (no_fields\<lparr>in_dueDate := Some ''not-a-date''\<rparr>) demo_db =
     (Response 400 ''Invalid due date format'' NoPayload, demo_db)"
    by blast
  from inst [of "no_fields\<lparr>in_title := Some ''  Final report '', in_status := Some ''in-progress''\<rparr>"]
    valid ids
  have c2: "updateTask demo_env alice_view report_id
       (no_fields\<lparr>in_title := Some ''  Final report '', in_status := Some ''in-progress''\<rparr>) demo_db =
     (Response 200 ''Task updated successfully''
        (TaskView (populate (users demo_db)
           (report\<lparr>title := ''Final report'', status := ''in-progress''\<rparr>))),
      demo_db\<lparr>tasks :=
        [report\<lparr>title := ''Final report'', status := ''in-progress''\<rparr>, groceries, slides]\<rparr>)"
    by (simp add: Let_def no_fields_def truthy_def tr ts)
  from inst [of no_fields] demo_valid(1) ids
  have c3: "updateTask demo_env alice_view report_id (no_fields\<lparr>in_description := Some []\<rparr>) demo_db =
     (Response 200 ''Task updated successfully''
        (TaskView (populate (users demo_db) (report\<lparr>description := []\<rparr>))),
      demo_db\<lparr>tasks := [report\<lparr>description := []\<rparr>, groceries, slides]\<rparr>)"
    by (simp add: ts)
  from c1 c2 c3 show ?thesis by (intro conjI)
qed

subsection \<open>Creating a task, and the enumerations\<close>

lemma createTask_missing:
  "\<not> truthy (in_title b) \<or> \<not> truthy (in_dueDate b) \<Longrightarrow>
   createTask env newId u b d = (Response 400 ''Title and due date are required'' NoPayload, d)"
  by (auto simp: createTask_def)

lemma createTask_bad_date:
  "truthy (in_title b) \<Longrightarrow> truthy (in_dueDate b) \<Longrightarrow> parseDate env (the (in_dueDate b)) = None \<Longrightarrow>
   createTask env newId u b d = (Response 400 ''Invalid due date format'' NoPayload, d)"
  by (simp add: createTask_def)

lemma createTask_save:
  assumes "truthy (in_title b)" and "truthy (in_dueDate b)"
    and "parseDate env (the (in_dueDate b)) = Some ms"
    and "T = \<lparr>task_id = newId, userId = view_id u, title = trim (the (in_title b)),
               description = (case in_description b of None \<Rightarrow> [] | Some s \<Rightarrow> trim s),
               dueDate = ms,
               status = (if truthy (in_status b) then the (in_status b) else ''pending''),
               priority = (if truthy (in_priority b) then the (in_priority b) else ''medium'')\<rparr>"
  shows "createTask env newId u b d =
     (case task_insert T (tasks d) of
        Inl e \<Rightarrow> (Response 500 ''Server error while creating task'' NoPayload, d)
      | Inr ts \<Rightarrow>
          (Response 201 ''Task created successfully'' (TaskView (populate (users d) T)),
           d\<lparr>tasks := ts\<rparr>))"
proof -
  have d: "(if truthy (in_description b) then trim (the (in_description b)) else []) =
      (case in_description b of None \<Rightarrow> [] | Some s \<Rightarrow> trim s)"
    by (cases "in_description b") (auto simp: truthy_def trim_Nil)
  have s: "orElse (in_status b) ''pending'' =
      (if truthy (in_status b) then the (in_status b) else ''pending'')"
    and p: "orElse (in_priority b) ''medium'' =
      (if truthy (in_priority b) then the (in_priority b) else ''medium'')"
    by (auto simp: orElse_def truthy_def split: option.splits)
  have built: "\<lparr>task_id = newId, userId = view_id u, title = trim (the (in_title b)),
        description = (if truthy (in_description b) then trim (the (in_description b)) else []),
        dueDate = ms, status = orElse (in_status b) ''pending'',
        priority = orElse (in_priority b) ''medium''\<rparr> = T"
    unfolding d s p assms(4) by (rule refl)
  show ?thesis
    using assms(1-3) by (simp add: createTask_def Let_def built split del: if_split)
qed

lemma createTask_not_persisted:
  "statusCode (fst (createTask env newId u b d)) \<noteq> 201 \<Longrightarrow> snd (createTask env newId u b d) = d"
  by (auto simp: createTask_def Let_def split: option.splits sum.splits if_splits)

text \<open>
  Claim C4, as amended. For a body whose fields are strings, the create route answers 400
  and stores nothing when the title or
  the due date is missing or empty, or when the due date does not parse. Otherwise it
  builds the task of the caller with the title trimmed, the description trimmed (empty
  when none is given), status \<^verbatim>\<open>pending\<close> and priority \<^verbatim>\<open>medium\<close> unless given; when
  that task passes the schema and its generated identifier is not in use, the task is
  appended to the collection and returned with 201. Whenever the answer is not 201 the
  database is unchanged.
\<close>

theorem C4_create_task:
  "(\<not> truthy (in_title b) \<or> \<not> truthy (in_dueDate b) \<longrightarrow>
      createTask env newId u b d =
        (Response 400 ''Title and due date are required'' NoPayload, d)) \<and>
   (truthy (in_title b) \<and> truthy (in_dueDate b) \<and> parseDate env (the (in_dueDate b)) = None \<longrightarrow>
      createTask env newId u b d = (Response 400 ''Invalid due date format'' NoPayload, d)) \<and>
   (let T = \<lparr>task_id = newId, userId = view_id u, title = trim (the (in_title b)),
              description = (case in_description b of None \<Rightarrow> [] | Some s \<Rightarrow> trim s),
              dueDate = ms,
              status = (if truthy (in_status b) then the (in_status b) else ''pending''),
              priority = (if truthy (in_priority b) then the (in_priority b) else ''medium'')\<rparr>
    in truthy (in_title b) \<and> truthy (in_dueDate b) \<and>
       parseDate env (the (in_dueDate b)) = Some ms \<and>
       validateTask T \<and> newId \<notin> task_id ` set (tasks d) \<longrightarrow>
         createTask env newId u b d =
           (Response 201 ''Task created successfully'' (TaskView (populate (users d) T)),
            d\<lparr>tasks := tasks d @ [T]\<rparr>)) \<and>
   (statusCode (fst (createTask env newId u b d)) \<noteq> 201 \<longrightarrow>
      snd (createTask env newId u b d) = d)"
proof -
  define T where "T = \<lparr>task_id = newId, userId = view_id u, title = trim (the (in_title b)),
              description = (case in_description b of None \<Rightarrow> [] | Some s \<Rightarrow> trim s),
              dueDate = ms,
              status = (if truthy (in_status b) then the (in_status b) else ''pending''),
              priority = (if truthy (in_priority b) then the (in_priority b) else ''medium'')\<rparr>"
  have missing: "\<not> truthy (in_title b) \<or> \<not> truthy (in_dueDate b) \<longrightarrow>
      createTask env newId u b d =
        (Response 400 ''Title and due date are required'' NoPayload, d)"
    using createTask_missing [of b env newId u d] by blast
  have bad: "truthy (in_title b) \<and> truthy (in_dueDate b) \<and> parseDate env (the (in_dueDate b)) = None \<longrightarrow>
      createTask env newId u b d = (Response 400 ''Invalid due date format'' NoPayload, d)"
    using createTask_bad_date [of b env newId u d] by blast
  have good: "truthy (in_title b) \<and> truthy (in_dueDate b) \<and>
       parseDate env (the (in_dueDate b)) = Some ms \<and>
       validateTask T \<and> newId \<notin> task_id ` set (tasks d) \<longrightarrow>
         createTask env newId u b d =
           (Response 201 ''Task created successfully'' (TaskView (populate (users d) T)),
            d\<lparr>tasks := tasks d @ [T]\<rparr>)"
  proof
    assume a: "truthy (in_title b) \<and> truthy (in_dueDate b) \<and>
       parseDate env (the (in_dueDate b)) = Some ms \<and>
       validateTask T \<and> newId \<notin> task_id ` set (tasks d)"
    then have "task_insert T (tasks d) = Inr (tasks d @ [T])"
      by (simp add: task_insert_def) (simp add: T_def)
    with a show "createTask env newId u b d =
           (Response 201 ''Task created successfully'' (TaskView (populate (users d) T)),
            d\<lparr>tasks := tasks d @ [T]\<rparr>)"
      by (simp add: createTask_save [where T = T and ms = ms, OF _ _ _ T_def])
  qed
  have kept: "statusCode (fst (createTask env newId u b d)) \<noteq> 201 \<longrightarrow>
      snd (createTask env newId u b d) = d"
    using createTask_not_persisted [of env newId u b d] by blast
  from missing bad good kept show ?thesis
    unfolding Let_def T_def by (intro conjI)
qed


lemma createTask_rejected:
  assumes "truthy (in_title b)" and "truthy (in_dueDate b)"
    and "parseDate env (the (in_dueDate b)) = Some ms"
    and "truthy (in_status b) \<and> the (in_status b) \<notin> set statusEnum \<or>
         truthy (in_priority b) \<and> the (in_priority b) \<notin> set priorityEnum"
  shows "createTask env newId u b d =
     (Response 500 ''Server error while creating task'' NoPayload, d)"
proof -
  define T where "T = \<lparr>task_id = newId, userId = view_id u, title = trim (the (in_title b)),
               description = (case in_description b of None \<Rightarrow> [] | Some s \<Rightarrow> trim s),
               dueDate = ms,
               status = (if truthy (in_status b) then the (in_status b) else ''pending''),
               priority = (if truthy (in_priority b) then the (in_priority b) else ''medium'')\<rparr>"
  from assms(4) have "\<not> validateTask T"
    by (auto simp: validateTask_def T_def)
  then have "task_insert T (tasks d) = Inl ValidationError"
    by (simp add: task_insert_def)
  then show ?thesis
    by (simp add: createTask_save [OF assms(1-3) T_def])
qed

text \<open>A title of white space only is not missing, is trimmed to nothing, and is refused by the schema.\<close>

lemma createTask_blank_title:
  assumes "truthy (in_title b)" and "truthy (in_dueDate b)"
    and "parseDate env (the (in_dueDate b)) = Some ms" and "trim (the (in_title b)) = []"
  shows "createTask env newId u b d =
     (Response 500 ''Server error while creating task'' NoPayload, d)"
proof -
  define T where "T = \<lparr>task_id = newId, userId = view_id u, title = trim (the (in_title b)),
               description = (case in_description b of None \<Rightarrow> [] | Some s \<Rightarrow> trim s),
               dueDate = ms,
               status = (if truthy (in_status b) then the (in_status b) else ''pending''),
               priority = (if truthy (in_priority b) then the (in_priority b) else ''medium'')\<rparr>"
  from assms(4) have "task_insert T (tasks d) = Inl ValidationError"
    by (simp add: task_insert_def validateTask_def T_def)
  then show ?thesis
    by (simp add: createTask_save [OF assms(1-3) T_def])
qed

lemma createTask_no_break_space_title:
  "createTask demo_env unused_id alice_view
      (no_fields\<lparr>in_title := Some [CHR 0xC2, CHR 0xA0],
         in_dueDate := Some ''2030-01-01T00:00:00Z''\<rparr>) demo_db =
     (Response 500 ''Server error while creating task'' NoPayload, demo_db)"
  by (rule createTask_blank_title [where ms = 1893456000000])
     (simp_all add: no_fields_def truthy_def demo_dates trim_examples)

lemma updateTaskStatus_rejected:
  "castObjectId env pid = Some i \<Longrightarrow> truthy st \<Longrightarrow> the st \<notin> set statusEnum \<Longrightarrow>
   updateTaskStatus env u pid st d =
     (Response 500 ''Server error while updating task status'' NoPayload, d)"
  by (simp add: updateTaskStatus_def task_findOneAndUpdate_def task_catch_def)

lemma updateTaskStatus_missing:
  "\<not> truthy st \<Longrightarrow> updateTaskStatus env u pid st d = (Response 400 ''Status is required'' NoPayload, d)"
  by (simp add: updateTaskStatus_def)

text \<open>
  Claim C3 is not what the routes do. A status (or, on create, a priority) outside its
  enumeration is refused by the schema validators: nothing is stored and the value is not
  coerced. But the error they throw is not \<^verbatim>\<open>CastError\<close>, so the catch branches answer
  500, not 400. A missing or empty status on the status route is answered 400.
\<close>

theorem C3_invalid_enum_is_server_error:
  "(truthy (in_title b) \<and> truthy (in_dueDate b) \<and> parseDate env (the (in_dueDate b)) = Some ms \<and>
    (truthy (in_status b) \<and> the (in_status b) \<notin> set statusEnum \<or>
     truthy (in_priority b) \<and> the (in_priority b) \<notin> set priorityEnum) \<longrightarrow>
      createTask env newId u b d =
        (Response 500 ''Server error while creating task'' NoPayload, d)) \<and>
   (castObjectId env pid = Some i \<and> truthy st \<and> the st \<notin> set statusEnum \<longrightarrow>
      updateTaskStatus env u pid st d =
        (Response 500 ''Server error while updating task status'' NoPayload, d)) \<and>
   (\<not> truthy st \<longrightarrow>
      updateTaskStatus env u pid st d = (Response 400 ''Status is required'' NoPayload, d))"
  using createTask_rejected [of b env ms newId u d] updateTaskStatus_rejected [of env pid i st u d]
    updateTaskStatus_missing [of st env u pid d]
  by blast

lemma demo_unused: "unused_id \<notin> task_id ` set (tasks demo_db)"
  by (simp add: demo_db_def report_def groceries_def slides_def report_id_def groceries_id_def
      slides_id_def unused_id_def)

text \<open>
  Alice sends the status \<^verbatim>\<open>done\<close> to the create route and to the status route, and no status to the status route.
\<close>

theorem C3_invalid_enum_is_server_error_witness:
  "createTask demo_env unused_id alice_view
      (no_fields\<lparr>in_title := Some ''Write report'', in_dueDate := Some ''2030-01-01T00:00:00Z'',
         in_status := Some ''done''\<rparr>) demo_db =
     (Response 500 ''Server error while creating task'' NoPayload, demo_db) \<and>
   updateTaskStatus demo_env alice_view report_id (Some ''done'') demo_db =
     (Response 500 ''Server error while updating task status'' NoPayload, demo_db) \<and>
   updateTaskStatus demo_env alice_view report_id None demo_db =
     (Response 400 ''Status is required'' NoPayload, demo_db)"
proof -
  let ?b = "no_fields\<lparr>in_title := Some ''Write report'', in_dueDate := Some ''2030-01-01T00:00:00Z'',
         in_status := Some ''done''\<rparr>"
  have body: "truthy (in_title ?b)" "truthy (in_dueDate ?b)"
    "parseDate demo_env (the (in_dueDate ?b)) = Some 1893456000000"
    "truthy (in_status ?b) \<and> the (in_status ?b) \<notin> set statusEnum"
    by (simp_all add: truthy_def demo_dates statusEnum_def)
  have st: "truthy (Some ''done'')" "the (Some ''done'') \<notin> set statusEnum" "\<not> truthy None"
    by (simp_all add: truthy_def statusEnum_def)
  have cast: "castObjectId demo_env report_id = Some report_id"
    by (rule demo_cast_ids)
  from C3_invalid_enum_is_server_error [of ?b demo_env 1893456000000 unused_id alice_view demo_db
      report_id report_id "Some ''done''"] body st(1,2) cast
  have c12: "createTask demo_env unused_id alice_view ?b demo_db =
     (Response 500 ''Server error while creating task'' NoPayload, demo_db)"
    "updateTaskStatus demo_env alice_view report_id (Some ''done'') demo_db =
     (Response 500 ''Server error while updating task status'' NoPayload, demo_db)"
    by blast+
  from C3_invalid_enum_is_server_error [of ?b demo_env 1893456000000 unused_id alice_view demo_db
      report_id report_id None] st(3)
  have c3: "updateTaskStatus demo_env alice_view report_id None demo_db =
     (Response 400 ''Status is required'' NoPayload, demo_db)"
    by blast
  from c12 c3 show ?thesis by (intro conjI)
qed

text \<open>
  Claim C4 as stated fails: with a title, a due date that parses and the priority
  \<^verbatim>\<open>urgent\<close>, the create route does not answer 201.
\<close>

theorem C4_counterexample_invalid_priority:
  "truthy (in_title (no_fields\<lparr>in_title := Some ''Write tests'',
      in_dueDate := Some ''2030-01-01T00:00:00Z'', in_priority := Some ''urgent''\<rparr>)) \<and>
   truthy (in_dueDate (no_fields\<lparr>in_title := Some ''Write tests'',
      in_dueDate := Some ''2030-01-01T00:00:00Z'', in_priority := Some ''urgent''\<rparr>)) \<and>
   parseDate demo_env ''2030-01-01T00:00:00Z'' = Some 1893456000000 \<and>
   createTask demo_env unused_id alice_view
      (no_fields\<lparr>in_title := Some ''Write tests'', in_dueDate := Some ''2030-01-01T00:00:00Z'',
         in_priority := Some ''urgent''\<rparr>) demo_db =
     (Response 500 ''Server error while creating task'' NoPayload, demo_db)"
proof -
  let ?b = "no_fields\<lparr>in_title := Some ''Write tests'', in_dueDate := Some ''2030-01-01T00:00:00Z'',
         in_priority := Some ''urgent''\<rparr>"
  have body: "truthy (in_title ?b)" "truthy (in_dueDate ?b)"
    "parseDate demo_env (the (in_dueDate ?b)) = Some 1893456000000"
    "truthy (in_status ?b) \<and> the (in_status ?b) \<notin> set statusEnum \<or>
     truthy (in_priority ?b) \<and> the (in_priority ?b) \<notin> set priorityEnum"
    by (simp_all add: truthy_def demo_dates priorityEnum_def)
  from createTask_rejected [OF body] body(1,2) demo_dates(1) show ?thesis
    by (intro conjI)
qed

text \<open>
  Alice creates tasks on the sample deployment: without a title, with an unparsable due
  date, and with a padded title and a valid due date.
\<close>

theorem C4_create_task_witness:
  "createTask demo_env unused_id alice_view (no_fields\<lparr>in_dueDate := Some ''2030-01-01T00:00:00Z''\<rparr>)
      demo_db =
     (Response 400 ''Title and due date are required'' NoPayload, demo_db) \<and>
   createTask demo_env unused_id alice_view
      (no_fields\<lparr>in_title := Some ''Write tests'', in_dueDate := Some ''not-a-date''\<rparr>) demo_db =
     (Response 400 ''Invalid due date format'' NoPayload, demo_db) \<and>
   createTask demo_env unused_id alice_view
      (no_fields\<lparr>in_title := Some ''  Write tests '', in_dueDate := Some ''2030-01-01T00:00:00Z''\<rparr>)
      demo_db =
     (Response 201 ''Task created successfully''
        (TaskView (populate (users demo_db)
           \<lparr>task_id = unused_id, userId = alice_id, title = ''Write tests'', description = [],
            dueDate = 1893456000000, status = ''pending'', priority = ''medium''\<rparr>)),
      demo_db\<lparr>tasks := tasks demo_db @
        [\<lparr>task_id = unused_id, userId = alice_id, title = ''Write tests'', description = [],
          dueDate = 1893456000000, status = ''pending'', priority = ''medium''\<rparr>]\<rparr>)"
proof -
  have tr: "trim ''  Write tests '' = ''Write tests''"
    by code_simp
  have valid: "validateTask \<lparr>task_id = unused_id, userId = alice_id, title = ''Write tests'',
      description = [], dueDate = 1893456000000, status = ''pending'', priority = ''medium''\<rparr>"
    by code_simp
  have me: "view_id alice_view = alice_id" by (simp add: alice_view_def)
  from C4_create_task [of "no_fields\<lparr>in_dueDate := Some ''2030-01-01T00:00:00Z''\<rparr>"
      demo_env unused_id alice_view demo_db 0]
  have c1: "createTask demo_env unused_id alice_view
      (no_fields\<lparr>in_dueDate := Some ''2030-01-01T00:00:00Z''\<rparr>) demo_db =
     (Response 400 ''Title and due date are required'' NoPayload, demo_db)"
    by (simp add: no_fields_def truthy_def)
  from C4_create_task [of "no_fields\<lparr>in_title := Some ''Write tests'', in_dueDate := Some ''not-a-date''\<rparr>"
      demo_env unused_id alice_view demo_db 0]
  have c2: "createTask demo_env unused_id alice_view
      (no_fields\<lparr>in_title := Some ''Write tests'', in_dueDate := Some ''not-a-date''\<rparr>) demo_db =
     (Response 400 ''Invalid due date format'' NoPayload, demo_db)"
    by (simp add: no_fields_def truthy_def demo_dates)
  from C4_create_task [of "no_fields\<lparr>in_title := Some ''  Write tests '',
        in_dueDate := Some ''2030-01-01T00:00:00Z''\<rparr>"
      demo_env unused_id alice_view demo_db 1893456000000] valid demo_unused
  have c3: "createTask demo_env unused_id alice_view
      (no_fields\<lparr>in_title := Some ''  Write tests '', in_dueDate := Some ''2030-01-01T00:00:00Z''\<rparr>)
      demo_db =
     (Response 201 ''Task created successfully''
        (TaskView (populate (users demo_db)
           \<lparr>task_id = unused_id, userId = alice_id, title = ''Write tests'', description = [],
            dueDate = 1893456000000, status = ''pending'', priority = ''medium''\<rparr>)),
      demo_db\<lparr>tasks := tasks demo_db @
        [\<lparr>task_id = unused_id, userId = alice_id, title = ''Write tests'', description = [],
          dueDate = 1893456000000, status = ''pending'', priority = ''medium''\<rparr>]\<rparr>)"
    by (simp add: Let_def no_fields_def truthy_def demo_dates tr me)
  from c1 c2 c3 show ?thesis by (intro conjI)
qed

subsection \<open>What every route preserves\<close>

text \<open>
  The theorems above are stated for collections whose identifiers are unique and, where a
  stored task is saved again, whose tasks pass the schema. Both properties hold of the
  empty collection and are kept by every route.
\<close>

lemma route_keeps_identifiers_unique:
  assumes "distinct (map task_id (tasks d))"
  shows "distinct (map task_id (tasks (snd (route env newId u req d))))"
proof (cases req)
  case (GetTasks q)
  with assms getTasks_scoped [of env u q d] show ?thesis by (simp add: route_def)
next
  case (GetTask pid)
  with assms getTask_scoped [of env u pid d] show ?thesis by (simp add: route_def)
next
  case (PostTask b)
  with assms show ?thesis
    by (auto simp: route_def createTask_def task_insert_def Let_def split: option.splits)
next
  case (PutTask pid b)
  have "distinct (map task_id (tasks (snd (updateTask env u pid b d))))"
  proof (cases "task_findOne env pid (view_id u) (tasks d)")
    case (Inl e)
    with assms show ?thesis by (simp add: updateTask_def)
  next
    case (Inr found)
    show ?thesis
    proof (cases found)
      case None
      with Inr assms show ?thesis by (simp add: updateTask_def)
    next
      case (Some t)
      have "map task_id (replaceFirst (\<lambda>x. task_id x = task_id t') t' (tasks d)) =
          map task_id (tasks d)" for t'
        by (rule ids_replaceFirst) simp
      with Inr Some assms show ?thesis
        by (simp add: updateTask_def task_save_def Let_def)
    qed
  qed
  with PutTask show ?thesis by (simp add: route_def)
next
  case (DeleteTask pid)
  with assms show ?thesis
    by (auto simp: route_def deleteTask_def task_findOneAndDelete_def ids_removeFirst
        split: option.splits)
next
  case (PatchTaskStatus pid st)
  have "map task_id (replaceFirst (owned i (view_id u)) (t\<lparr>status := s\<rparr>) (tasks d)) =
      map task_id (tasks d)" if "find (owned i (view_id u)) (tasks d) = Some t" for i t s
    using find_owned_SomeD [OF that] by (intro ids_replaceFirst) (simp add: owned_def)
  with PatchTaskStatus assms show ?thesis
    by (auto simp: route_def updateTaskStatus_def task_findOneAndUpdate_def split: option.splits)
qed

lemma set_replaceFirst: "set (replaceFirst P t' ts) \<subseteq> insert t' (set ts)"
  by (induction ts) auto

lemma route_keeps_tasks_valid:
  assumes "\<forall>t \<in> set (tasks d). validateTask t"
  shows "\<forall>t \<in> set (tasks (snd (route env newId u req d))). validateTask t"
proof (cases req)
  case (GetTasks q)
  with assms getTasks_scoped [of env u q d] show ?thesis by (simp add: route_def)
next
  case (GetTask pid)
  with assms getTask_scoped [of env u pid d] show ?thesis by (simp add: route_def)
next
  case (PostTask b)
  with assms show ?thesis
    by (auto simp: route_def createTask_def task_insert_def Let_def split: option.splits if_splits)
next
  case (PutTask pid b)
  have "\<forall>x \<in> set (replaceFirst P t' (tasks d)). validateTask x" if "validateTask t'" for P t'
    using set_replaceFirst [of P t' "tasks d"] assms that by auto
  with PutTask assms show ?thesis
    by (auto simp: route_def updateTask_def task_save_def Let_def task_catch_def
        split: option.splits sum.splits if_splits)
next
  case (DeleteTask pid)
  with assms set_removeFirst [of _ "tasks d"] show ?thesis
    by (auto simp: route_def deleteTask_def task_findOneAndDelete_def split: option.splits)
next
  case (PatchTaskStatus pid st)
  have "\<forall>x \<in> set (replaceFirst P (t\<lparr>status := s\<rparr>) (tasks d)). validateTask x"
    if "t \<in> set (tasks d)" "s \<in> set statusEnum" for P t s
  proof -
    from that assms have "validateTask (t\<lparr>status := s\<rparr>)" by (simp add: validateTask_def)
    with set_replaceFirst [of P "t\<lparr>status := s\<rparr>" "tasks d"] assms show ?thesis by auto
  qed
  with PatchTaskStatus assms show ?thesis
    by (auto simp: route_def updateTaskStatus_def task_findOneAndUpdate_def
        dest!: find_owned_SomeD split: option.splits if_splits)
qed

end
